theory Spec2Isabelle
  imports Main "HOL-Library.AList" "HOL-Library.Multiset"
begin

section \<open>Data model of the marketplace backend\<close>

text \<open>
  The order service (\<^verbatim>\<open>orders.service.ts\<close>) and the email service
  (\<^verbatim>\<open>email/email.service.ts\<close>) are embedded as pure functions over an explicit
  world: the relational store, the log of store operations issued, the messages handed to
  the mail transporter and the lines written to the logger.

  Rows are kept in the joined shape that Prisma returns for the \<^verbatim>\<open>include\<close>
  clauses used throughout the service (a product carries its seller, an order its customer
  and its items, an item its product). Timestamps are left out. Integers of the store and of
  the request are unbounded \<^typ>\<open>int\<close>s; column ranges of the store are not modelled (a store
  that enforces \<^verbatim>\<open>DECIMAL(10,2)\<close> and \<^verbatim>\<open>INTEGER\<close> raises on a value out of range and the
  transaction rolls back, so the model succeeds on some inputs where such a store fails).

  The service creates the items of an order by a nested write and reads them back without an
  \<^verbatim>\<open>orderBy\<close>: the order in which the store inserts the items (and so hands out their ids) and
  the order in which it returns them are the store's own. The store carries both choices as
  rankings of the positions of the list it is given; the items are arranged by ascending rank.
\<close>

datatype Role = CUSTOMER | SELLER

datatype OrderStatus = PENDING | PROCESSING | SHIPPED | DELIVERED

text \<open>
  \<^verbatim>\<open>Prisma.Decimal\<close> values of the \<^verbatim>\<open>DECIMAL(10,2)\<close> columns: a fixed-point number
  with two fractional digits, kept as its number of hundredths.
\<close>

datatype Decimal = Cents (cents: int)

definition decAdd :: "Decimal \<Rightarrow> Decimal \<Rightarrow> Decimal" where
  "decAdd a b = Cents (cents a + cents b)"

definition decMul :: "Decimal \<Rightarrow> int \<Rightarrow> Decimal" where
  "decMul a n = Cents (cents a * n)"

text \<open>The exceptions that leave the two services.\<close>

datatype HttpError =
    ForbiddenException string
  | NotFoundException string
  | TypeError
  | PrismaError string
  | TransportError

record User =
  uid :: int
  email :: string
  fullName :: string

record Product =
  name :: string
  category :: string
  price :: Decimal
  stock :: int
  isActive :: bool
  seller :: User

record OrderItemDto =
  productId :: int
  quantity :: int

record CreateOrderDto =
  shippingAddress :: string
  items :: "OrderItemDto list"

record OrderItemCreateInput =
  newQuantity :: int
  newUnitPrice :: Decimal
  connectId :: int

record OrderItem =
  itemId :: int
  itemQuantity :: int
  unitPrice :: Decimal
  productRef :: int
  product :: Product

record Order =
  orderId :: int
  customer :: User
  status :: OrderStatus
  orderAddress :: string
  totalAmount :: Decimal
  orderItems :: "OrderItem list"

record Database =
  users :: "int \<rightharpoonup> User"
  products :: "int \<rightharpoonup> Product"
  orders :: "Order list"
  nextOrderId :: int
  nextItemId :: int
  insertRank :: "OrderItemCreateInput list \<Rightarrow> nat \<Rightarrow> int"
  returnRank :: "OrderItem list \<Rightarrow> nat \<Rightarrow> int"

datatype StoreOp = ProductFindMany "int list" | OrderCreate int | ProductUpdate int | OrderFindUnique int | OrderUpdate int

record Mail =
  mailFrom :: string
  mailTo :: string
  subject :: string
  body :: string

record World =
  db :: Database
  storeLog :: "StoreOp list"
  sentMail :: "Mail list"
  logged :: "string list"

text \<open>
  The JavaScript runtime's \<^verbatim>\<open>Number(decimal)\<close> and \<^verbatim>\<open>number.toFixed(digits)\<close> are
  built-ins outside the repository: they are taken as parameters, with \<open>'n\<close> the type of
  native numbers.
\<close>

record 'n JsRuntime =
  Number :: "Decimal \<Rightarrow> 'n"
  toFixed :: "'n \<Rightarrow> nat \<Rightarrow> string"

text \<open>\<^verbatim>\<open>EmailService\<close>: the transporter is absent when the credentials are not configured;
  a configured transporter either delivers a message or rejects.\<close>

record EmailService =
  transporter :: "(Mail \<Rightarrow> bool) option"
  fromAddress :: string

section \<open>JavaScript helpers\<close>

text \<open>Template literals render an integer in decimal.\<close>

function showNat :: "nat \<Rightarrow> string" where
  "showNat n = (if n < 10 then [char_of (48 + n)] else showNat (n div 10) @ [char_of (48 + n mod 10)])"
  by pat_completeness auto
termination
  by (relation "measure (\<lambda>n. n)") auto

declare showNat.simps [simp del]

definition showInt :: "int \<Rightarrow> string" where
  "showInt i = (if i < 0 then ''-'' @ showNat (nat (- i)) else showNat (nat i))"

text \<open>
  A JavaScript \<^verbatim>\<open>Map\<close> is an association list in insertion order with one entry per
  key: \<^verbatim>\<open>set\<close> overwrites the value of a present key in place and appends a new key
  (\<^const>\<open>AList.update\<close>), \<^verbatim>\<open>get\<close> is \<^const>\<open>map_of\<close>.
\<close>

definition mapFromEntries :: "('k \<times> 'v) list \<Rightarrow> ('k \<times> 'v) list" where
  "mapFromEntries es = foldl (\<lambda>m (k, v). AList.update k v m) [] es"

text \<open>\<^verbatim>\<open>Promise.all\<close> over actions that have all been started: every action runs; the
  result is the first rejection, if there is one.\<close>

fun promiseAll :: "('w \<Rightarrow> (HttpError + unit) \<times> 'w) list \<Rightarrow> 'w \<Rightarrow> (HttpError + unit) \<times> 'w" where
  "promiseAll [] w = (Inr (), w)"
| "promiseAll (a # as) w =
     (case a w of (r, w1) \<Rightarrow>
        (case promiseAll as w1 of (rs, w2) \<Rightarrow>
           (case r of Inl e \<Rightarrow> (Inl e, w2) | Inr _ \<Rightarrow> (rs, w2))))"

section \<open>Store operations\<close>

text \<open>\<^verbatim>\<open>tx.product.findMany({ where: { id: { in: ids }, isActive: true }, include: { seller: true } })\<close>\<close>

definition activeRow :: "Database \<Rightarrow> int \<Rightarrow> (int \<times> Product) option" where
  "activeRow d i = (case products d i of None \<Rightarrow> None
                    | Some p \<Rightarrow> if isActive p then Some (i, p) else None)"

definition productFindMany :: "int list \<Rightarrow> World \<Rightarrow> (int \<times> Product) list \<times> World" where
  "productFindMany ids w =
     (List.map_filter (activeRow (db w)) (remdups ids),
      w\<lparr>storeLog := storeLog w @ [ProductFindMany ids]\<rparr>)"

text \<open>A list in the order the store chooses: its positions sorted by the store's ranking
  (a permutation of the list, whatever the ranking).\<close>

definition arrange :: "(nat \<Rightarrow> int) \<Rightarrow> 'a list \<Rightarrow> 'a list" where
  "arrange rank xs = map snd (sort_key (\<lambda>p. rank (fst p)) (enumerate 0 xs))"

text \<open>\<^verbatim>\<open>tx.order.create\<close> with nested item creation; the customer reference is a foreign
  key, and each created item is returned with the product it connects to. The items are
  inserted, and numbered, in the store's insertion order and returned in its return order.\<close>

fun numberItems :: "(int \<rightharpoonup> Product) \<Rightarrow> int \<Rightarrow> OrderItemCreateInput list \<Rightarrow> HttpError + OrderItem list" where
  "numberItems pm n [] = Inr []"
| "numberItems pm n (c # cs) =
     (case pm (connectId c) of
        None \<Rightarrow> Inl (PrismaError ''No Product record was found for a nested connect'')
      | Some p \<Rightarrow>
          (case numberItems pm (n + 1) cs of
             Inl e \<Rightarrow> Inl e
           | Inr its \<Rightarrow> Inr (\<lparr>itemId = n, itemQuantity = newQuantity c, unitPrice = newUnitPrice c,
                               productRef = connectId c, product = p\<rparr> # its)))"

definition orderCreate ::
  "int \<Rightarrow> string \<Rightarrow> Decimal \<Rightarrow> OrderItemCreateInput list \<Rightarrow> World \<Rightarrow> (HttpError + Order) \<times> World" where
  "orderCreate customerId address amount createItems w =
     (let d = db w; w1 = w\<lparr>storeLog := storeLog w @ [OrderCreate customerId]\<rparr> in
      case users d customerId of
        None \<Rightarrow> (Inl (PrismaError ''Foreign key constraint failed on the field: customerId''), w1)
      | Some c \<Rightarrow>
          (case numberItems (products d) (nextItemId d)
                  (arrange (insertRank d createItems) createItems) of
             Inl e \<Rightarrow> (Inl e, w1)
           | Inr created \<Rightarrow>
               (let its = arrange (returnRank d created) created;
                    order = \<lparr>orderId = nextOrderId d, customer = c, status = PENDING,
                             orderAddress = address, totalAmount = amount, orderItems = its\<rparr>
                in (Inr order,
                    w1\<lparr>db := d\<lparr>orders := orders d @ [order],
                                nextOrderId := nextOrderId d + 1,
                                nextItemId := nextItemId d + int (length its)\<rparr>\<rparr>))))"

text \<open>\<^verbatim>\<open>tx.product.update({ where: { id }, data: { stock, isActive } })\<close>\<close>

definition productUpdate :: "int \<Rightarrow> int \<Rightarrow> bool \<Rightarrow> World \<Rightarrow> (HttpError + unit) \<times> World" where
  "productUpdate i newStock newActive w =
     (let d = db w; w1 = w\<lparr>storeLog := storeLog w @ [ProductUpdate i]\<rparr> in
      case products d i of
        None \<Rightarrow> (Inl (PrismaError ''Record to update not found''), w1)
      | Some p \<Rightarrow>
          (Inr (), w1\<lparr>db := d\<lparr>products := (products d)(i \<mapsto> p\<lparr>stock := newStock, isActive := newActive\<rparr>)\<rparr>\<rparr>))"

text \<open>\<^verbatim>\<open>prisma.$transaction(callback)\<close>: when the callback throws, the store is rolled back
  and the exception is passed on; the operations were issued all the same.\<close>

definition transaction :: "(World \<Rightarrow> (HttpError + 'a) \<times> World) \<Rightarrow> World \<Rightarrow> (HttpError + 'a) \<times> World" where
  "transaction callback w =
     (case callback w of
        (Inl e, w1) \<Rightarrow> (Inl e, w1\<lparr>db := db w\<rparr>)
      | (Inr v, w1) \<Rightarrow> (Inr v, w1))"

section \<open>OrdersService.create\<close>

definition ensureCustomer :: "Role \<Rightarrow> HttpError + unit" where
  "ensureCustomer role =
     (if role \<noteq> CUSTOMER then Inl (ForbiddenException ''Customer role required'') else Inr ())"

definition ensureSeller :: "Role \<Rightarrow> HttpError + unit" where
  "ensureSeller role =
     (if role \<noteq> SELLER then Inl (ForbiddenException ''Seller role required'') else Inr ())"

text \<open>Lines 92-98: the quantities of the request, summed per product id.\<close>

definition addQuantity :: "(int \<times> int) list \<Rightarrow> OrderItemDto \<Rightarrow> (int \<times> int) list" where
  "addQuantity m item =
     AList.update (productId item)
       ((case map_of m (productId item) of None \<Rightarrow> 0 | Some q \<Rightarrow> q) + quantity item) m"

definition aggregateQuantities :: "OrderItemDto list \<Rightarrow> (int \<times> int) list" where
  "aggregateQuantities its = foldl addQuantity [] its"

text \<open>Lines 114-123: the availability loop over the entries of the aggregated map; the
  result is the exception thrown, if any.\<close>

fun validateStock :: "(int \<rightharpoonup> Product) \<Rightarrow> (int \<times> int) list \<Rightarrow> HttpError option" where
  "validateStock pm [] = None"
| "validateStock pm ((i, q) # rest) =
     (case pm i of
        None \<Rightarrow> Some (NotFoundException (''Product '' @ showInt i @ '' not found''))
      | Some p \<Rightarrow>
          if stock p < q then Some (ForbiddenException (''Insufficient stock for '' @ name p))
          else validateStock pm rest)"

text \<open>Lines 125-138: one created item per requested item, in request order, with the
  running total. Reading \<^verbatim>\<open>price\<close> of an absent map entry is a \<^verbatim>\<open>TypeError\<close>.\<close>

fun lineItems ::
  "(int \<rightharpoonup> Product) \<Rightarrow> OrderItemDto list \<Rightarrow> Decimal \<Rightarrow> HttpError + (Decimal \<times> OrderItemCreateInput list)" where
  "lineItems pm [] acc = Inr (acc, [])"
| "lineItems pm (item # rest) acc =
     (case pm (productId item) of
        None \<Rightarrow> Inl TypeError
      | Some p \<Rightarrow>
          (let uPrice = price p;
               acc1 = decAdd acc (decMul uPrice (quantity item))
           in case lineItems pm rest acc1 of
                Inl e \<Rightarrow> Inl e
              | Inr (t, cs) \<Rightarrow>
                  Inr (t, \<lparr>newQuantity = quantity item, newUnitPrice = uPrice,
                           connectId = productId item\<rparr> # cs)))"

text \<open>Lines 163-175: one update per entry of the aggregated map.\<close>

definition updateStock :: "(int \<rightharpoonup> Product) \<Rightarrow> int \<times> int \<Rightarrow> World \<Rightarrow> (HttpError + unit) \<times> World" where
  "updateStock pm entry w =
     (case pm (fst entry) of
        None \<Rightarrow> (Inl TypeError, w)
      | Some p \<Rightarrow>
          (let remainingStock = stock p - snd entry
           in productUpdate (fst entry) remainingStock (remainingStock > 0) w))"

text \<open>Lines 91-178: the callback of the transaction.\<close>

definition checkoutCallback :: "int \<Rightarrow> CreateOrderDto \<Rightarrow> World \<Rightarrow> (HttpError + Order) \<times> World" where
  "checkoutCallback customerId dto w =
     (let productQuantities = aggregateQuantities (items dto);
          productIds = map fst productQuantities
      in case productFindMany productIds w of (found, w1) \<Rightarrow>
         if length found \<noteq> length productIds
         then (Inl (NotFoundException ''One or more products were not found or inactive''), w1)
         else
           (let productMap = map_of (mapFromEntries found) in
            case validateStock productMap productQuantities of
              Some e \<Rightarrow> (Inl e, w1)
            | None \<Rightarrow>
                (case lineItems productMap (items dto) (Cents 0) of
                   Inl e \<Rightarrow> (Inl e, w1)
                 | Inr (amount, createItems) \<Rightarrow>
                     (case orderCreate customerId (shippingAddress dto) amount createItems w1 of
                        (Inl e, w2) \<Rightarrow> (Inl e, w2)
                      | (Inr createdOrder, w2) \<Rightarrow>
                          (case promiseAll (map (updateStock productMap) productQuantities) w2 of
                             (Inl e, w3) \<Rightarrow> (Inl e, w3)
                           | (Inr _, w3) \<Rightarrow> (Inr createdOrder, w3))))))"


section \<open>EmailService\<close>

record 'n OrderItemSummary =
  sumName :: string
  sumQuantity :: int
  sumUnitPrice :: 'n

record 'n SummaryItem =
  sellerEmail :: string
  sellerName :: string
  summary :: "'n OrderItemSummary"

record 'n OrderSummary =
  summaryId :: int
  summaryStatus :: OrderStatus
  summaryTotal :: 'n
  summaryAddress :: string
  customerEmail :: string
  customerName :: string
  summaryItems :: "'n SummaryItem list"

record MailOptions =
  optTo :: string
  optSubject :: string
  optText :: string

definition statusLower :: "OrderStatus \<Rightarrow> string" where
  "statusLower s = (case s of PENDING \<Rightarrow> ''pending'' | PROCESSING \<Rightarrow> ''processing''
                    | SHIPPED \<Rightarrow> ''shipped'' | DELIVERED \<Rightarrow> ''delivered'')"

fun joinLines :: "string list \<Rightarrow> string" where
  "joinLines [] = []"
| "joinLines [l] = l"
| "joinLines (l # ls) = l @ [CHR 0x0A] @ joinLines ls"

text \<open>Lines 58-68: without a transporter the message is only logged.\<close>

definition outgoing :: "EmailService \<Rightarrow> MailOptions \<Rightarrow> Mail" where
  "outgoing es options =
     \<lparr>mailFrom = fromAddress es, mailTo = optTo options,
      subject = optSubject options, body = optText options\<rparr>"

definition skipped :: "MailOptions \<Rightarrow> string" where
  "skipped options = ''Email outbound skipped: '' @ optSubject options"

definition send :: "EmailService \<Rightarrow> MailOptions \<Rightarrow> World \<Rightarrow> (HttpError + unit) \<times> World" where
  "send es options w =
     (case transporter es of
        None \<Rightarrow> (Inr (), w\<lparr>logged := logged w @ [skipped options]\<rparr>)
      | Some sendMail \<Rightarrow>
          (if sendMail (outgoing es options) then Inr () else Inl TransportError,
           w\<lparr>sentMail := sentMail w @ [outgoing es options]\<rparr>))"

definition itemLine :: "'n JsRuntime \<Rightarrow> 'n OrderItemSummary \<Rightarrow> string" where
  "itemLine rt item =
     ''- '' @ sumName item @ '' x'' @ showInt (sumQuantity item) @ '' @ $'' @ toFixed rt (sumUnitPrice item) 2"

definition confirmationMail :: "'n JsRuntime \<Rightarrow> 'n OrderSummary \<Rightarrow> MailOptions" where
  "confirmationMail rt order =
     \<lparr>optTo = customerEmail order,
      optSubject = ''Tea Haven Order Confirmation #'' @ showInt (summaryId order),
      optText = joinLines
        ([''Hi '' @ customerName order @ '','',
          [],
          ''Thank you for shopping at Tea Haven! Your order #'' @ showInt (summaryId order)
             @ '' is now '' @ statusLower (summaryStatus order) @ ''.'',
          [],
          ''Items:'']
         @ map (\<lambda>item. itemLine rt (summary item)) (summaryItems order)
         @ [[],
            ''Total: $'' @ toFixed rt (summaryTotal order) 2,
            ''Shipping to: '' @ summaryAddress order,
            [],
            ''We will update you as soon as your items ship.'',
            [],
            ''Best regards,'',
            ''Tea Haven Team''])\<rparr>"

definition sendOrderConfirmation ::
  "'n JsRuntime \<Rightarrow> EmailService \<Rightarrow> 'n OrderSummary \<Rightarrow> World \<Rightarrow> (HttpError + unit) \<times> World" where
  "sendOrderConfirmation rt es order w = send es (confirmationMail rt order) w"

text \<open>Lines 99-107: the items of the order grouped by the seller's email address.\<close>

definition addToGroup ::
  "(string \<times> string \<times> 'n OrderItemSummary list) list \<Rightarrow> 'n SummaryItem
   \<Rightarrow> (string \<times> string \<times> 'n OrderItemSummary list) list" where
  "addToGroup groups item =
     (let existing = (case map_of groups (sellerEmail item) of
                        None \<Rightarrow> (sellerName item, [])
                      | Some ex \<Rightarrow> ex)
      in AList.update (sellerEmail item) (fst existing, snd existing @ [summary item]) groups)"

definition sellerGroups :: "'n OrderSummary \<Rightarrow> (string \<times> string \<times> 'n OrderItemSummary list) list" where
  "sellerGroups order = foldl addToGroup [] (summaryItems order)"

definition sellerMail ::
  "'n JsRuntime \<Rightarrow> 'n OrderSummary \<Rightarrow> string \<times> string \<times> 'n OrderItemSummary list \<Rightarrow> MailOptions" where
  "sellerMail rt order entry =
     \<lparr>optTo = fst entry,
      optSubject = ''New order #'' @ showInt (summaryId order) @ '' from '' @ customerName order,
      optText = joinLines
        ([''Hello '' @ fst (snd entry) @ '','',
          [],
          ''A new order (#'' @ showInt (summaryId order) @ '') includes your products.'',
          [],
          ''Items:'']
         @ map (itemLine rt) (snd (snd entry))
         @ [[],
            ''Ship to: '' @ summaryAddress order,
            [],
            ''Please prepare the items for shipment.'',
            [],
            ''Tea Haven Platform''])\<rparr>"

definition sendSellerNotification ::
  "'n JsRuntime \<Rightarrow> EmailService \<Rightarrow> 'n OrderSummary \<Rightarrow> World \<Rightarrow> (HttpError + unit) \<times> World" where
  "sendSellerNotification rt es order w =
     promiseAll (map (\<lambda>entry. send es (sellerMail rt order entry)) (sellerGroups order)) w"

definition buildOrderSummary :: "'n JsRuntime \<Rightarrow> Order \<Rightarrow> 'n OrderSummary" where
  "buildOrderSummary rt order =
     \<lparr>summaryId = orderId order,
      summaryStatus = status order,
      summaryTotal = Number rt (totalAmount order),
      summaryAddress = orderAddress order,
      customerEmail = email (customer order),
      customerName = fullName (customer order),
      summaryItems = map (\<lambda>item.
          \<lparr>sellerEmail = email (seller (product item)),
           sellerName = fullName (seller (product item)),
           summary = \<lparr>sumName = name (product item), sumQuantity = itemQuantity item,
                      sumUnitPrice = Number rt (unitPrice item)\<rparr>\<rparr>) (orderItems order)\<rparr>"

section \<open>OrdersService: serialisation, checkout and status update\<close>

record SerializedProduct =
  spId :: int
  spName :: string
  spCategory :: string
  spSellerId :: int
  spSellerName :: string

record 'n SerializedOrderItem =
  siId :: int
  siQuantity :: int
  siUnitPrice :: 'n
  siProduct :: SerializedProduct

record 'n SerializedOrder =
  soId :: int
  soStatus :: OrderStatus
  soShippingAddress :: string
  soTotalAmount :: 'n
  soItems :: "'n SerializedOrderItem list"

definition serializeOrder :: "'n JsRuntime \<Rightarrow> Order \<Rightarrow> 'n SerializedOrder" where
  "serializeOrder rt order =
     \<lparr>soId = orderId order,
      soStatus = status order,
      soShippingAddress = orderAddress order,
      soTotalAmount = Number rt (totalAmount order),
      soItems = map (\<lambda>item.
          \<lparr>siId = itemId item,
           siQuantity = itemQuantity item,
           siUnitPrice = Number rt (unitPrice item),
           siProduct = \<lparr>spId = productRef item, spName = name (product item),
                        spCategory = category (product item),
                        spSellerId = uid (seller (product item)),
                        spSellerName = fullName (seller (product item))\<rparr>\<rparr>) (orderItems order)\<rparr>"

text \<open>Lines 88-187.\<close>

definition create ::
  "'n JsRuntime \<Rightarrow> EmailService \<Rightarrow> int \<Rightarrow> Role \<Rightarrow> CreateOrderDto \<Rightarrow> World
   \<Rightarrow> (HttpError + 'n SerializedOrder) \<times> World" where
  "create rt es customerId role dto w =
     (case ensureCustomer role of
        Inl e \<Rightarrow> (Inl e, w)
      | Inr _ \<Rightarrow>
          (case transaction (checkoutCallback customerId dto) w of
             (Inl e, w1) \<Rightarrow> (Inl e, w1)
           | (Inr order, w1) \<Rightarrow>
               (let summ = buildOrderSummary rt order in
                case promiseAll [sendOrderConfirmation rt es summ,
                                 sendSellerNotification rt es summ] w1 of
                  (Inl e, w2) \<Rightarrow> (Inl e, w2)
                | (Inr _, w2) \<Rightarrow> (Inr (serializeOrder rt order), w2))))"

text \<open>Lines 237-279.\<close>

definition orderFindUnique :: "int \<Rightarrow> World \<Rightarrow> Order option \<times> World" where
  "orderFindUnique i w =
     (find (\<lambda>row. orderId row = i) (orders (db w)),
      w\<lparr>storeLog := storeLog w @ [OrderFindUnique i]\<rparr>)"

definition orderUpdate :: "int \<Rightarrow> OrderStatus \<Rightarrow> World \<Rightarrow> (HttpError + Order) \<times> World" where
  "orderUpdate i newStatus w =
     (let d = db w; w1 = w\<lparr>storeLog := storeLog w @ [OrderUpdate i]\<rparr> in
      case find (\<lambda>row. orderId row = i) (orders d) of
        None \<Rightarrow> (Inl (PrismaError ''Record to update not found''), w1)
      | Some row \<Rightarrow>
          (Inr (row\<lparr>status := newStatus\<rparr>),
           w1\<lparr>db := d\<lparr>orders := map (\<lambda>r. if orderId r = i then r\<lparr>status := newStatus\<rparr> else r)
                                     (orders d)\<rparr>\<rparr>))"

definition updateStatus ::
  "'n JsRuntime \<Rightarrow> int \<Rightarrow> int \<Rightarrow> Role \<Rightarrow> OrderStatus \<Rightarrow> World
   \<Rightarrow> (HttpError + 'n SerializedOrder) \<times> World" where
  "updateStatus rt i sellerId role newStatus w =
     (case ensureSeller role of
        Inl e \<Rightarrow> (Inl e, w)
      | Inr _ \<Rightarrow>
          (case orderFindUnique i w of
             (None, w1) \<Rightarrow> (Inl (NotFoundException ''Order not found''), w1)
           | (Some order, w1) \<Rightarrow>
               (let sellerOwnsItem = list_ex (\<lambda>item. uid (seller (product item)) = sellerId)
                                             (orderItems order)
                in if \<not> sellerOwnsItem
                   then (Inl (ForbiddenException ''You are not allowed to update this order''), w1)
                   else (case orderUpdate i newStatus w1 of
                           (Inl e, w2) \<Rightarrow> (Inl e, w2)
                         | (Inr updatedOrder, w2) \<Rightarrow> (Inr (serializeOrder rt updatedOrder), w2)))))"

section \<open>Example data\<close>

text \<open>
  A small shop for the concrete evaluations below: two sellers, one customer, an active
  product with ample stock, an active product with little stock and a sold-out, inactive one.
  In the example runtime a native number represents the stored decimal exactly and
  \<^verbatim>\<open>toFixed\<close> prints hundredths with two fractional digits. The example store inserts the
  items of an order in reverse request order and returns them by ascending id.
\<close>

definition renderCents :: "int \<Rightarrow> string" where
  "renderCents c =
     (if c < 0 then ''-'' else []) @ showNat (nat \<bar>c\<bar> div 100) @ ''.''
       @ [char_of (48 + (nat \<bar>c\<bar> mod 100) div 10), char_of (48 + nat \<bar>c\<bar> mod 10)]"

definition exRuntime :: "Decimal JsRuntime" where
  "exRuntime = \<lparr>Number = (\<lambda>d. d), toFixed = (\<lambda>d k. renderCents (cents d))\<rparr>"

definition ann :: User where
  "ann = \<lparr>uid = 1, email = ''ann@sellers.dev'', fullName = ''Ann''\<rparr>"

definition bob :: User where
  "bob = \<lparr>uid = 2, email = ''bob@sellers.dev'', fullName = ''Bob''\<rparr>"

definition cleo :: User where
  "cleo = \<lparr>uid = 10, email = ''cleo@teahaven.dev'', fullName = ''Cleo''\<rparr>"

definition sencha :: Product where
  "sencha = \<lparr>name = ''Sencha'', category = ''green'', price = Cents 1250, stock = 50,
             isActive = True, seller = ann\<rparr>"

definition oolong :: Product where
  "oolong = \<lparr>name = ''Oolong'', category = ''oolong'', price = Cents 999, stock = 5,
             isActive = True, seller = ann\<rparr>"

definition assam :: Product where
  "assam = \<lparr>name = ''Assam'', category = ''black'', price = Cents 700, stock = 3,
            isActive = True, seller = bob\<rparr>"

definition matcha :: Product where
  "matcha = \<lparr>name = ''Matcha'', category = ''green'', price = Cents 2400, stock = 0,
             isActive = False, seller = bob\<rparr>"

definition exDb :: Database where
  "exDb = \<lparr>users = [1 \<mapsto> ann, 2 \<mapsto> bob, 10 \<mapsto> cleo],
           products = [1 \<mapsto> sencha, 2 \<mapsto> oolong, 3 \<mapsto> assam, 4 \<mapsto> matcha],
           orders = [], nextOrderId = 1, nextItemId = 1,
           insertRank = (\<lambda>cs i. - int i), returnRank = (\<lambda>its i. int i)\<rparr>"

definition exWorld :: World where
  "exWorld = \<lparr>db = exDb, storeLog = [], sentMail = [], logged = []\<rparr>"

definition mailerUp :: EmailService where
  "mailerUp = \<lparr>transporter = Some (\<lambda>m. True), fromAddress = ''no-reply@teahaven.local''\<rparr>"

definition mailerDown :: EmailService where
  "mailerDown = \<lparr>transporter = Some (\<lambda>m. False), fromAddress = ''no-reply@teahaven.local''\<rparr>"

definition mailerOff :: EmailService where
  "mailerOff = \<lparr>transporter = None, fromAddress = ''no-reply@teahaven.local''\<rparr>"

definition line :: "int \<Rightarrow> int \<Rightarrow> OrderItemDto" where
  "line i q = \<lparr>productId = i, quantity = q\<rparr>"

definition request :: "OrderItemDto list \<Rightarrow> CreateOrderDto" where
  "request its = \<lparr>shippingAddress = ''1 Tea Lane'', items = its\<rparr>"

text \<open>An order of the customer for one product of the first seller, and a world holding it.\<close>

definition senchaItem :: OrderItem where
  "senchaItem = \<lparr>itemId = 1, itemQuantity = 2, unitPrice = Cents 1250, productRef = 1,
                 product = sencha\<rparr>"

definition placedOrder :: "OrderStatus \<Rightarrow> Order" where
  "placedOrder s = \<lparr>orderId = 7, customer = cleo, status = s, orderAddress = ''1 Tea Lane'',
                    totalAmount = Cents 2500, orderItems = [senchaItem]\<rparr>"

definition worldWithOrder :: "OrderStatus \<Rightarrow> World" where
  "worldWithOrder s = exWorld\<lparr>db := exDb\<lparr>orders := [placedOrder s]\<rparr>\<rparr>"

section \<open>Auxiliary lemmas\<close>



subsection \<open>The aggregated map\<close>

lemma keys_addQuantity:
  "map fst (addQuantity m x) =
     (if productId x \<in> fst ` set m then map fst m else map fst m @ [productId x])"
  by (simp add: addQuantity_def update_keys)

lemma distinct_foldl_addQuantity:
  "distinct (map fst m) \<Longrightarrow> distinct (map fst (foldl addQuantity m its))"
proof (induction its arbitrary: m)
  case Nil
  then show ?case by simp
next
  case (Cons x its)
  have "distinct (map fst (addQuantity m x))"
    using Cons.prems by (simp add: addQuantity_def distinct_update)
  then show ?case using Cons.IH by simp
qed

lemma keys_foldl_addQuantity:
  "fst ` set (foldl addQuantity m its) = fst ` set m \<union> productId ` set its"
proof (induction its arbitrary: m)
  case Nil
  then show ?case by simp
next
  case (Cons x its)
  have "fst ` set (addQuantity m x) = insert (productId x) (fst ` set m)"
    by (simp add: addQuantity_def dom_update)
  then show ?case using Cons.IH [of "addQuantity m x"] by auto
qed

lemma map_of_addQuantity:
  "map_of (addQuantity m x) i =
     (if i = productId x
      then Some ((case map_of m i of None \<Rightarrow> 0 | Some q \<Rightarrow> q) + quantity x)
      else map_of m i)"
  by (simp add: addQuantity_def update_conv')

lemma map_of_Some_key: "map_of m i = Some a \<Longrightarrow> i \<in> fst ` set m"
  by (metis map_of_eq_None_iff option.distinct(1))

lemma map_of_foldl_addQuantity:
  "map_of (foldl addQuantity m its) i =
     (if i \<in> fst ` set m \<union> productId ` set its
      then Some ((case map_of m i of None \<Rightarrow> 0 | Some q \<Rightarrow> q)
                 + sum_list (map quantity (filter (\<lambda>x. productId x = i) its)))
      else None)"
proof (induction its arbitrary: m)
  case Nil
  show ?case
    by (cases "map_of m i") (auto simp: map_of_eq_None_iff dest: map_of_Some_key)
next
  case (Cons x its)
  have keys: "fst ` set (addQuantity m x) = insert (productId x) (fst ` set m)"
    by (simp add: addQuantity_def dom_update)
  show ?case
    unfolding foldl_Cons Cons.IH [of "addQuantity m x"] keys
    by (cases "map_of m i") (auto simp: map_of_addQuantity map_of_eq_None_iff dest: map_of_Some_key)
qed

lemma distinct_aggregateQuantities: "distinct (map fst (aggregateQuantities its))"
  by (simp add: aggregateQuantities_def distinct_foldl_addQuantity)

lemma keys_aggregateQuantities: "fst ` set (aggregateQuantities its) = productId ` set its"
  by (simp add: aggregateQuantities_def keys_foldl_addQuantity)

lemma map_of_aggregateQuantities:
  "map_of (aggregateQuantities its) i =
     (if i \<in> productId ` set its
      then Some (sum_list (map quantity (filter (\<lambda>x. productId x = i) its)))
      else None)"
  by (simp add: aggregateQuantities_def map_of_foldl_addQuantity)

subsection \<open>The product lookup\<close>

lemma length_map_filter_le: "length (List.map_filter f xs) \<le> length xs"
  by (induction xs) (auto split: option.split)

lemma length_map_filter_eq:
  "length (List.map_filter f xs) = length xs \<longleftrightarrow> (\<forall>x\<in>set xs. f x \<noteq> None)"
proof (induction xs)
  case Nil
  then show ?case by simp
next
  case (Cons x xs)
  have "length (List.map_filter f xs) \<le> length xs" by (rule length_map_filter_le)
  then show ?case using Cons by (auto split: option.split)
qed

lemma mapFromEntries_aux:
  "distinct (map fst (m @ es)) \<Longrightarrow> foldl (\<lambda>m (k, v). AList.update k v m) m es = m @ es"
proof (induction es arbitrary: m)
  case Nil
  then show ?case by simp
next
  case (Cons e es)
  obtain k v where e: "e = (k, v)" by (cases e)
  have "k \<notin> fst ` set m" using Cons.prems e by auto
  then have upd: "AList.update k v m = m @ [(k, v)]"
    by (induction m) auto
  show ?case using Cons.IH [of "m @ [(k, v)]"] Cons.prems e upd by simp
qed

lemma mapFromEntries_distinct: "distinct (map fst es) \<Longrightarrow> mapFromEntries es = es"
  using mapFromEntries_aux [of "[]" es] by (simp add: mapFromEntries_def)

lemma map_filter_activeRow_keys:
  "\<forall>i\<in>set ids. activeRow d i \<noteq> None \<Longrightarrow> map fst (List.map_filter (activeRow d) ids) = ids"
  by (induction ids) (auto simp: activeRow_def split: option.splits if_splits)

lemma map_of_map_filter_activeRow:
  "map_of (List.map_filter (activeRow d) ids) i =
     (if i \<in> set ids then (case products d i of None \<Rightarrow> None
                            | Some p \<Rightarrow> if isActive p then Some p else None) else None)"
  by (induction ids) (auto simp: activeRow_def split: option.splits if_splits)


subsection \<open>Availability loop\<close>

lemma validateStock_None_iff:
  "validateStock pm pq = None \<longleftrightarrow> (\<forall>(i, q)\<in>set pq. \<exists>p. pm i = Some p \<and> q \<le> stock p)"
  by (induction pm pq rule: validateStock.induct) (auto split: option.splits)

lemma validateStock_Some:
  assumes "validateStock pm pq = Some e" and "\<forall>(i, q)\<in>set pq. pm i \<noteq> None"
  shows "\<exists>pre i q post p. pq = pre @ (i, q) # post
           \<and> (\<forall>(j, r)\<in>set pre. \<exists>p'. pm j = Some p' \<and> r \<le> stock p')
           \<and> pm i = Some p \<and> stock p < q
           \<and> e = ForbiddenException (''Insufficient stock for '' @ name p)"
  using assms
proof (induction pm pq rule: validateStock.induct)
  case (1 pm)
  then show ?case by simp
next
  case (2 pm i q rest)
  from "2.prems"(2) obtain p where p: "pm i = Some p" by auto
  show ?case
  proof (cases "stock p < q")
    case True
    then have "e = ForbiddenException (''Insufficient stock for '' @ name p)"
      using "2.prems"(1) p by simp
    then have "(i, q) # rest = [] @ (i, q) # rest
           \<and> (\<forall>(j, r)\<in>set []. \<exists>p'. pm j = Some p' \<and> r \<le> stock p')
           \<and> pm i = Some p \<and> stock p < q
           \<and> e = ForbiddenException (''Insufficient stock for '' @ name p)"
      using True p by simp
    then show ?thesis by blast
  next
    case False
    then have "validateStock pm rest = Some e" using "2.prems"(1) p by simp
    moreover have "\<forall>(i, q)\<in>set rest. pm i \<noteq> None" using "2.prems"(2) by auto
    ultimately obtain pre j r post p' where
      IH: "rest = pre @ (j, r) # post"
          "\<forall>(j, r)\<in>set pre. \<exists>p'. pm j = Some p' \<and> r \<le> stock p'"
          "pm j = Some p'" "stock p' < r"
          "e = ForbiddenException (''Insufficient stock for '' @ name p')"
      using "2.IH" [OF p False] by blast
    have "(i, q) # rest = ((i, q) # pre) @ (j, r) # post
           \<and> (\<forall>(j, r)\<in>set ((i, q) # pre). \<exists>p'. pm j = Some p' \<and> r \<le> stock p')
           \<and> pm j = Some p' \<and> stock p' < r
           \<and> e = ForbiddenException (''Insufficient stock for '' @ name p')"
      using IH p False by auto
    then show ?thesis by blast
  qed
qed

lemma validateStock_cong:
  "\<forall>(i, q)\<in>set pq. pm i = pm' i \<Longrightarrow> validateStock pm pq = validateStock pm' pq"
  by (induction pm pq rule: validateStock.induct) (auto split: option.splits)

subsection \<open>Line items\<close>

lemma lineItems_cong:
  "\<forall>x\<in>set its. pm (productId x) = pm' (productId x) \<Longrightarrow> lineItems pm its acc = lineItems pm' its acc"
  by (induction its arbitrary: acc) (auto split: option.splits sum.splits simp: Let_def)

lemma lineItems_ok:
  "\<forall>x\<in>set its. pm (productId x) \<noteq> None \<Longrightarrow>
     lineItems pm its acc =
       Inr (Cents (cents acc + sum_list (map (\<lambda>x. cents (price (the (pm (productId x)))) * quantity x) its)),
            map (\<lambda>x. \<lparr>newQuantity = quantity x, newUnitPrice = price (the (pm (productId x))),
                       connectId = productId x\<rparr>) its)"
  by (induction its arbitrary: acc) (auto simp: Let_def decAdd_def decMul_def)

lemma numberItems_ok:
  "\<forall>c\<in>set cs. pm (connectId c) \<noteq> None \<Longrightarrow>
     \<exists>its. numberItems pm n cs = Inr its
       \<and> list_all2 (\<lambda>c it. itemQuantity it = newQuantity c \<and> unitPrice it = newUnitPrice c
                           \<and> productRef it = connectId c \<and> pm (connectId c) = Some (product it)) cs its"
proof (induction cs arbitrary: n)
  case Nil
  then show ?case by simp
next
  case (Cons c cs)
  from Cons.prems obtain p where p: "pm (connectId c) = Some p" by auto
  from Cons.IH [of "n + 1"] Cons.prems obtain its where
    its: "numberItems pm (n + 1) cs = Inr its"
         "list_all2 (\<lambda>c it. itemQuantity it = newQuantity c \<and> unitPrice it = newUnitPrice c
                           \<and> productRef it = connectId c \<and> pm (connectId c) = Some (product it)) cs its"
    by auto
  show ?case using p its by simp
qed

subsection \<open>Stock updates\<close>

lemma promiseAll_updateStock:
  assumes "distinct (map fst pq)"
    and "\<forall>(i, q)\<in>set pq. pm i \<noteq> None \<and> products (db w) i \<noteq> None"
  shows "promiseAll (map (updateStock pm) pq) w =
     (Inr (), w\<lparr>storeLog := storeLog w @ map (\<lambda>e. ProductUpdate (fst e)) pq,
                db := (db w)\<lparr>products := (\<lambda>i. case map_of pq i of
                           None \<Rightarrow> products (db w) i
                         | Some q \<Rightarrow> map_option (\<lambda>row. row\<lparr>stock := stock (the (pm i)) - q,
                                                            isActive := (stock (the (pm i)) - q > 0)\<rparr>)
                                      (products (db w) i))\<rparr>\<rparr>)"
  using assms
proof (induction pq arbitrary: w)
  case Nil
  then show ?case by simp
next
  case (Cons e pq)
  obtain i q where e: "e = (i, q)" by (cases e)
  from Cons.prems(2) e obtain p row where p: "pm i = Some p" and row: "products (db w) i = Some row"
    by auto
  define w1 where "w1 = w\<lparr>storeLog := storeLog w @ [ProductUpdate i],
      db := (db w)\<lparr>products := (products (db w))(i \<mapsto> row\<lparr>stock := stock p - q, isActive := (stock p - q > 0)\<rparr>)\<rparr>\<rparr>"
  have step: "updateStock pm e w = (Inr (), w1)"
    by (simp add: updateStock_def e p row productUpdate_def Let_def w1_def)
  have notin: "i \<notin> fst ` set pq" using Cons.prems(1) e by auto
  have d: "distinct (map fst pq)" using Cons.prems(1) by simp
  have pre: "\<forall>(j, r)\<in>set pq. pm j \<noteq> None \<and> products (db w1) j \<noteq> None"
    using Cons.prems(2) by (auto simp: w1_def)
  have none: "map_of pq i = None" using notin by (simp add: map_of_eq_None_iff)
  have tab: "(\<lambda>j. case map_of pq j of None \<Rightarrow> products (db w1) j
                 | Some r \<Rightarrow> map_option (\<lambda>row. row\<lparr>stock := stock (the (pm j)) - r,
                                                    isActive := (stock (the (pm j)) - r > 0)\<rparr>)
                              (products (db w1) j))
           = (\<lambda>j. case map_of (e # pq) j of None \<Rightarrow> products (db w) j
                 | Some r \<Rightarrow> map_option (\<lambda>row. row\<lparr>stock := stock (the (pm j)) - r,
                                                    isActive := (stock (the (pm j)) - r > 0)\<rparr>)
                              (products (db w) j))"
  proof
    fix j
    show "(case map_of pq j of None \<Rightarrow> products (db w1) j
                 | Some r \<Rightarrow> map_option (\<lambda>row. row\<lparr>stock := stock (the (pm j)) - r,
                                                    isActive := (stock (the (pm j)) - r > 0)\<rparr>)
                              (products (db w1) j))
           = (case map_of (e # pq) j of None \<Rightarrow> products (db w) j
                 | Some r \<Rightarrow> map_option (\<lambda>row. row\<lparr>stock := stock (the (pm j)) - r,
                                                    isActive := (stock (the (pm j)) - r > 0)\<rparr>)
                              (products (db w) j))"
    proof (cases "j = i")
      case True
      then show ?thesis using none e p row by (simp add: w1_def)
    next
      case False
      then show ?thesis using e by (simp add: w1_def split: option.split)
    qed
  qed
  note ih = Cons.IH [OF d pre]
  show ?case
    apply (simp only: list.map promiseAll.simps step ih prod.case sum.case tab)
    apply (simp add: w1_def e)
    done
qed


subsection \<open>The transaction callback, case by case\<close>

lemma found_length_iff:
  "length (List.map_filter (activeRow d) (remdups (map fst (aggregateQuantities its))))
      = length (map fst (aggregateQuantities its))
   \<longleftrightarrow> (\<forall>x\<in>set its. \<exists>p. products d (productId x) = Some p \<and> isActive p)"
proof -
  let ?ids = "map fst (aggregateQuantities its)"
  have rd: "remdups ?ids = ?ids"
    by (simp add: distinct_aggregateQuantities)
  have keys: "set ?ids = productId ` set its"
    using keys_aggregateQuantities [of its] by simp
  have act: "\<And>i. activeRow d i \<noteq> None \<longleftrightarrow> (\<exists>p. products d i = Some p \<and> isActive p)"
    by (auto simp: activeRow_def split: option.splits)
  have "length (List.map_filter (activeRow d) ?ids) = length ?ids
          \<longleftrightarrow> (\<forall>i\<in>set ?ids. activeRow d i \<noteq> None)"
    by (rule length_map_filter_eq)
  also have "\<dots> \<longleftrightarrow> (\<forall>x\<in>set its. \<exists>p. products d (productId x) = Some p \<and> isActive p)"
    unfolding keys act by blast
  finally show ?thesis unfolding rd .
qed

lemma callback_NotFound:
  assumes "\<exists>x\<in>set (items dto). \<not> (\<exists>p. products (db w) (productId x) = Some p \<and> isActive p)"
  shows "checkoutCallback cid dto w =
           (Inl (NotFoundException ''One or more products were not found or inactive''),
            w\<lparr>storeLog := storeLog w @ [ProductFindMany (map fst (aggregateQuantities (items dto)))]\<rparr>)"
proof -
  have "length (List.map_filter (activeRow (db w)) (remdups (map fst (aggregateQuantities (items dto)))))
          \<noteq> length (map fst (aggregateQuantities (items dto)))"
    using assms found_length_iff [of "db w" "items dto"] by blast
  then show ?thesis
    by (simp add: checkoutCallback_def productFindMany_def Let_def)
qed

lemma productMap_agrees:
  assumes "\<forall>x\<in>set its. \<exists>p. products d (productId x) = Some p \<and> isActive p"
    and "i \<in> productId ` set its"
  shows "map_of (mapFromEntries (List.map_filter (activeRow d) (remdups (map fst (aggregateQuantities its))))) i
           = products d i"
proof -
  let ?ids = "map fst (aggregateQuantities its)"
  have rd: "remdups ?ids = ?ids" by (simp add: distinct_aggregateQuantities)
  have keys: "set ?ids = productId ` set its"
    using keys_aggregateQuantities [of its] by simp
  have act: "\<forall>i\<in>set ?ids. activeRow d i \<noteq> None"
    unfolding keys using assms(1) by (auto simp: activeRow_def)
  have "map fst (List.map_filter (activeRow d) ?ids) = ?ids"
    by (rule map_filter_activeRow_keys [OF act])
  then have "distinct (map fst (List.map_filter (activeRow d) ?ids))"
    by (simp add: distinct_aggregateQuantities)
  then have "mapFromEntries (List.map_filter (activeRow d) ?ids) = List.map_filter (activeRow d) ?ids"
    by (rule mapFromEntries_distinct)
  moreover have "map_of (List.map_filter (activeRow d) ?ids) i = products d i"
    unfolding map_of_map_filter_activeRow keys using assms by auto
  ultimately show ?thesis unfolding rd by simp
qed

lemma updateStock_cong:
  "\<forall>e\<in>set pq. pm (fst e) = pm' (fst e) \<Longrightarrow> map (updateStock pm) pq = map (updateStock pm') pq"
  by (auto simp: updateStock_def fun_eq_iff)

lemma callback_found:
  assumes "\<forall>x\<in>set (items dto). \<exists>p. products (db w) (productId x) = Some p \<and> isActive p"
  shows "checkoutCallback cid dto w =
    (let pq = aggregateQuantities (items dto);
         w1 = w\<lparr>storeLog := storeLog w @ [ProductFindMany (map fst pq)]\<rparr>
     in case validateStock (products (db w)) pq of
          Some e \<Rightarrow> (Inl e, w1)
        | None \<Rightarrow>
            (case lineItems (products (db w)) (items dto) (Cents 0) of
               Inl e \<Rightarrow> (Inl e, w1)
             | Inr (amount, createItems) \<Rightarrow>
                 (case orderCreate cid (shippingAddress dto) amount createItems w1 of
                    (Inl e, w2) \<Rightarrow> (Inl e, w2)
                  | (Inr createdOrder, w2) \<Rightarrow>
                      (case promiseAll (map (updateStock (products (db w))) pq) w2 of
                         (Inl e, w3) \<Rightarrow> (Inl e, w3)
                       | (Inr _, w3) \<Rightarrow> (Inr createdOrder, w3)))))"
proof -
  let ?pq = "aggregateQuantities (items dto)"
  let ?pm = "map_of (mapFromEntries (List.map_filter (activeRow (db w)) (remdups (map fst ?pq))))"
  have len: "length (List.map_filter (activeRow (db w)) (remdups (map fst ?pq))) = length (map fst ?pq)"
    using assms found_length_iff [of "db w" "items dto"] by blast
  have agree: "\<And>i. i \<in> productId ` set (items dto) \<Longrightarrow> ?pm i = products (db w) i"
    using productMap_agrees [OF assms] by simp
  have keys: "fst ` set ?pq = productId ` set (items dto)"
    by (rule keys_aggregateQuantities)
  have v: "validateStock ?pm ?pq = validateStock (products (db w)) ?pq"
    by (rule validateStock_cong) (use agree keys in force)
  have l: "lineItems ?pm (items dto) (Cents 0) = lineItems (products (db w)) (items dto) (Cents 0)"
    by (rule lineItems_cong) (use agree in auto)
  have u: "map (updateStock ?pm) ?pq = map (updateStock (products (db w))) ?pq"
    by (rule updateStock_cong) (use agree keys in force)
  show ?thesis
    unfolding checkoutCallback_def productFindMany_def Let_def prod.case
    using len by (simp only: v l u) simp
qed


lemma callback_insufficient:
  assumes "\<forall>x\<in>set (items dto). \<exists>p. products (db w) (productId x) = Some p \<and> isActive p"
    and "validateStock (products (db w)) (aggregateQuantities (items dto)) = Some e"
  shows "checkoutCallback cid dto w =
           (Inl e, w\<lparr>storeLog := storeLog w @ [ProductFindMany (map fst (aggregateQuantities (items dto)))]\<rparr>)"
  using assms(2) by (simp add: callback_found [OF assms(1)] Let_def)

lemma callback_no_customer:
  assumes "\<forall>x\<in>set (items dto). \<exists>p. products (db w) (productId x) = Some p \<and> isActive p"
    and "validateStock (products (db w)) (aggregateQuantities (items dto)) = None"
    and "users (db w) cid = None"
  shows "checkoutCallback cid dto w =
           (Inl (PrismaError ''Foreign key constraint failed on the field: customerId''),
            w\<lparr>storeLog := storeLog w @ [ProductFindMany (map fst (aggregateQuantities (items dto))),
                                         OrderCreate cid]\<rparr>)"
proof -
  have found: "\<forall>x\<in>set (items dto). products (db w) (productId x) \<noteq> None"
    using assms(1) by auto
  show ?thesis
    using assms(2,3)
    by (simp add: callback_found [OF assms(1)] Let_def lineItems_ok [OF found] orderCreate_def)
qed

lemma mset_arrange: "mset (arrange rank xs) = mset xs"
proof -
  have "map snd (enumerate 0 xs) = xs"
    by (rule map_snd_enumerate)
  then have "mset (map snd (enumerate 0 xs)) = mset xs"
    by (rule arg_cong)
  then have "image_mset snd (mset (enumerate 0 xs)) = mset xs"
    by (simp only: mset_map)
  then show ?thesis
    by (simp add: arrange_def)
qed

lemma sum_list_mset_cong:
  fixes f :: "'a \<Rightarrow> int"
  assumes "mset xs = mset ys"
  shows "sum_list (map f xs) = sum_list (map f ys)"
proof -
  from assms have "mset (map f xs) = mset (map f ys)" by simp
  then have "sum_mset (mset (map f xs)) = sum_mset (mset (map f ys))" by (rule arg_cong)
  then show ?thesis by (simp only: sum_mset_sum_list)
qed

lemma callback_success:
  assumes avail: "\<forall>x\<in>set (items dto). \<exists>p. products (db w) (productId x) = Some p \<and> isActive p"
    and enough: "validateStock (products (db w)) (aggregateQuantities (items dto)) = None"
    and cust: "users (db w) cid = Some c"
  shows "\<exists>its.
    (\<exists>its'. mset its' = mset its
       \<and> list_all2 (\<lambda>x it. itemQuantity it = quantity x \<and> productRef it = productId x
                       \<and> products (db w) (productId x) = Some (product it)
                       \<and> unitPrice it = price (product it)) (items dto) its')
    \<and> checkoutCallback cid dto w =
       (Inr \<lparr>orderId = nextOrderId (db w), customer = c, status = PENDING,
             orderAddress = shippingAddress dto,
             totalAmount = Cents (sum_list (map (\<lambda>it. cents (unitPrice it) * itemQuantity it) its)),
             orderItems = its\<rparr>,
        w\<lparr>storeLog := storeLog w @ [ProductFindMany (map fst (aggregateQuantities (items dto))),
                                     OrderCreate cid]
                         @ map (\<lambda>e. ProductUpdate (fst e)) (aggregateQuantities (items dto)),
          db := (db w)\<lparr>
            orders := orders (db w) @
              [\<lparr>orderId = nextOrderId (db w), customer = c, status = PENDING,
                orderAddress = shippingAddress dto,
                totalAmount = Cents (sum_list (map (\<lambda>it. cents (unitPrice it) * itemQuantity it) its)),
                orderItems = its\<rparr>],
            nextOrderId := nextOrderId (db w) + 1,
            nextItemId := nextItemId (db w) + int (length its),
            products := (\<lambda>i. case map_of (aggregateQuantities (items dto)) i of
                           None \<Rightarrow> products (db w) i
                         | Some q \<Rightarrow> map_option (\<lambda>row. row\<lparr>stock := stock row - q,
                                                            isActive := (stock row - q > 0)\<rparr>)
                                      (products (db w) i))\<rparr>\<rparr>)"
proof -
  let ?pq = "aggregateQuantities (items dto)"
  let ?d = "db w"
  let ?cs = "map (\<lambda>x. \<lparr>newQuantity = quantity x,
                        newUnitPrice = price (the (products ?d (productId x))),
                        connectId = productId x\<rparr>) (items dto)"
  let ?ins = "arrange (insertRank ?d ?cs) ?cs"
  let ?amount = "Cents (sum_list (map (\<lambda>x. cents (price (the (products ?d (productId x)))) * quantity x) (items dto)))"
  let ?w1 = "w\<lparr>storeLog := storeLog w @ [ProductFindMany (map fst ?pq)]\<rparr>"
  have found: "\<forall>x\<in>set (items dto). products ?d (productId x) \<noteq> None"
    using avail by auto
  have li: "lineItems (products ?d) (items dto) (Cents 0) = Inr (?amount, ?cs)"
    using lineItems_ok [OF found, of "Cents 0"] by simp
  have ins: "mset ?cs = mset ?ins"
    by (simp only: mset_arrange)
  then have "set ?ins = set ?cs"
    by (rule mset_eq_setD [symmetric])
  then have "\<forall>c\<in>set ?ins. products ?d (connectId c) \<noteq> None"
    using found by auto
  from numberItems_ok [OF this, of "nextItemId ?d"] obtain created where
    ni: "numberItems (products ?d) (nextItemId ?d) ?ins = Inr created"
    and rel0: "list_all2 (\<lambda>c it. itemQuantity it = newQuantity c \<and> unitPrice it = newUnitPrice c
                           \<and> productRef it = connectId c
                           \<and> products ?d (connectId c) = Some (product it)) ?ins created"
    by blast
  define its where "its = arrange (returnRank ?d created) created"
  have ret: "mset its = mset created"
    by (simp only: its_def mset_arrange)
  from list_all2_reorder_left_invariance [OF rel0 ins] obtain its' where
    rel1: "list_all2 (\<lambda>c it. itemQuantity it = newQuantity c \<and> unitPrice it = newUnitPrice c
                           \<and> productRef it = connectId c
                           \<and> products ?d (connectId c) = Some (product it)) ?cs its'"
    and perm0: "mset its' = mset created"
    by blast
  have perm: "mset its' = mset its"
    using perm0 ret by simp
  have rel: "list_all2 (\<lambda>x it. itemQuantity it = quantity x \<and> productRef it = productId x
                       \<and> products ?d (productId x) = Some (product it)
                       \<and> unitPrice it = price (product it)) (items dto) its'"
    using rel1 unfolding list_all2_map1
    by (rule list_all2_mono) auto
  have "map (\<lambda>x. cents (price (the (products ?d (productId x)))) * quantity x) (items dto)
          = map (\<lambda>it. cents (unitPrice it) * itemQuantity it) its'"
    using rel by (induction rule: list_all2_induct) auto
  then have "sum_list (map (\<lambda>x. cents (price (the (products ?d (productId x)))) * quantity x) (items dto))
          = sum_list (map (\<lambda>it. cents (unitPrice it) * itemQuantity it) its')"
    by (rule arg_cong)
  also have "\<dots> = sum_list (map (\<lambda>it. cents (unitPrice it) * itemQuantity it) its)"
    by (rule sum_list_mset_cong [OF perm])
  finally have amount: "?amount = Cents (sum_list (map (\<lambda>it. cents (unitPrice it) * itemQuantity it) its))"
    by simp
  let ?order = "\<lparr>orderId = nextOrderId ?d, customer = c, status = PENDING,
             orderAddress = shippingAddress dto,
             totalAmount = Cents (sum_list (map (\<lambda>it. cents (unitPrice it) * itemQuantity it) its)),
             orderItems = its\<rparr>"
  let ?w2 = "?w1\<lparr>storeLog := storeLog ?w1 @ [OrderCreate cid],
                 db := ?d\<lparr>orders := orders ?d @ [?order],
                          nextOrderId := nextOrderId ?d + 1,
                          nextItemId := nextItemId ?d + int (length its)\<rparr>\<rparr>"
  have oc: "orderCreate cid (shippingAddress dto) ?amount ?cs ?w1 = (Inr ?order, ?w2)"
    unfolding amount by (simp add: orderCreate_def Let_def cust ni its_def)
  have keys: "fst ` set ?pq = productId ` set (items dto)"
    by (rule keys_aggregateQuantities)
  have pre: "\<forall>(i, q)\<in>set ?pq. products ?d i \<noteq> None \<and> products (db ?w2) i \<noteq> None"
    using found keys by force
  note up = promiseAll_updateStock [OF distinct_aggregateQuantities pre]
  have tab: "(\<lambda>i. case map_of ?pq i of None \<Rightarrow> products (db ?w2) i
                 | Some q \<Rightarrow> map_option (\<lambda>row. row\<lparr>stock := stock (the (products ?d i)) - q,
                                                    isActive := (stock (the (products ?d i)) - q > 0)\<rparr>)
                              (products (db ?w2) i))
           = (\<lambda>i. case map_of ?pq i of None \<Rightarrow> products ?d i
                 | Some q \<Rightarrow> map_option (\<lambda>row. row\<lparr>stock := stock row - q,
                                                    isActive := (stock row - q > 0)\<rparr>)
                              (products ?d i))"
  proof
    fix i
    show "(case map_of ?pq i of None \<Rightarrow> products (db ?w2) i
                 | Some q \<Rightarrow> map_option (\<lambda>row. row\<lparr>stock := stock (the (products ?d i)) - q,
                                                    isActive := (stock (the (products ?d i)) - q > 0)\<rparr>)
                              (products (db ?w2) i))
           = (case map_of ?pq i of None \<Rightarrow> products ?d i
                 | Some q \<Rightarrow> map_option (\<lambda>row. row\<lparr>stock := stock row - q,
                                                    isActive := (stock row - q > 0)\<rparr>)
                              (products ?d i))"
      by (cases "products ?d i") (auto split: option.split)
  qed
  have cb: "checkoutCallback cid dto w = (Inr ?order,
       ?w2\<lparr>storeLog := storeLog ?w2 @ map (\<lambda>e. ProductUpdate (fst e)) ?pq,
           db := (db ?w2)\<lparr>products := (\<lambda>i. case map_of ?pq i of None \<Rightarrow> products ?d i
                 | Some q \<Rightarrow> map_option (\<lambda>row. row\<lparr>stock := stock row - q,
                                                    isActive := (stock row - q > 0)\<rparr>)
                              (products ?d i))\<rparr>\<rparr>)"
    unfolding callback_found [OF avail] Let_def enough li
    by (simp only: option.case sum.case prod.case oc up tab)
  have "\<exists>its'. mset its' = mset its
       \<and> list_all2 (\<lambda>x it. itemQuantity it = quantity x \<and> productRef it = productId x
                       \<and> products ?d (productId x) = Some (product it)
                       \<and> unitPrice it = price (product it)) (items dto) its'"
    using perm rel by blast
  then show ?thesis
    apply (intro exI [of _ its])
    apply (erule conjI)
    apply (simp add: cb)
    done
qed

subsection \<open>Outcome of the callback and of the transaction\<close>

lemma callback_Inr_D:
  assumes "checkoutCallback cid dto w = (Inr order, w')"
  shows "(\<forall>x\<in>set (items dto). \<exists>p. products (db w) (productId x) = Some p \<and> isActive p)
         \<and> validateStock (products (db w)) (aggregateQuantities (items dto)) = None
         \<and> (\<exists>c. users (db w) cid = Some c)"
proof -
  have avail: "\<forall>x\<in>set (items dto). \<exists>p. products (db w) (productId x) = Some p \<and> isActive p"
  proof (rule ccontr)
    assume "\<not> ?thesis"
    then have "\<exists>x\<in>set (items dto). \<not> (\<exists>p. products (db w) (productId x) = Some p \<and> isActive p)"
      by blast
    from callback_NotFound [OF this, of cid] assms show False by simp
  qed
  have enough: "validateStock (products (db w)) (aggregateQuantities (items dto)) = None"
  proof (cases "validateStock (products (db w)) (aggregateQuantities (items dto))")
    case None
    then show ?thesis .
  next
    case (Some e)
    from callback_insufficient [OF avail Some, of cid] assms show ?thesis by simp
  qed
  have "\<exists>c. users (db w) cid = Some c"
  proof (cases "users (db w) cid")
    case None
    from callback_no_customer [OF avail enough None] assms show ?thesis by simp
  next
    case (Some c)
    then show ?thesis by blast
  qed
  with avail enough show ?thesis by blast
qed

lemma transaction_Inl:
  "callback w = (Inl e, w1) \<Longrightarrow> transaction callback w = (Inl e, w1\<lparr>db := db w\<rparr>)"
  by (simp add: transaction_def)

lemma transaction_Inr:
  "callback w = (Inr v, w1) \<Longrightarrow> transaction callback w = (Inr v, w1)"
  by (simp add: transaction_def)

lemma transaction_Inr_iff:
  "transaction callback w = (Inr v, w1) \<longleftrightarrow> callback w = (Inr v, w1)"
  by (auto simp: transaction_def split: prod.splits sum.splits)

subsection \<open>Notification dispatch\<close>

lemma promiseAll_send:
  "promiseAll (map (send es) ms) w =
     (case transporter es of
        None \<Rightarrow> (Inr (), w\<lparr>logged := logged w @ map skipped ms\<rparr>)
      | Some f \<Rightarrow> (if \<forall>m\<in>set ms. f (outgoing es m) then Inr () else Inl TransportError,
                   w\<lparr>sentMail := sentMail w @ map (outgoing es) ms\<rparr>))"
proof (induction ms arbitrary: w)
  case Nil
  then show ?case by (simp split: option.split)
next
  case (Cons m ms)
  show ?case
  proof (cases "transporter es")
    case None
    have h: "send es m w = (Inr (), w\<lparr>logged := logged w @ [skipped m]\<rparr>)"
      by (simp add: send_def None)
    show ?thesis by (simp add: h Cons.IH None)
  next
    case (Some f)
    have h: "send es m w = (if f (outgoing es m) then Inr () else Inl TransportError,
                            w\<lparr>sentMail := sentMail w @ [outgoing es m]\<rparr>)"
      by (simp add: send_def Some)
    show ?thesis by (simp add: h Cons.IH Some)
  qed
qed

lemma promiseAll_nested:
  "promiseAll [a, promiseAll bs] w = promiseAll (a # bs) w"
  by (auto split: prod.splits sum.splits)

lemma notify_eq:
  "promiseAll [sendOrderConfirmation rt es summ, sendSellerNotification rt es summ] w =
     promiseAll (map (send es) (confirmationMail rt summ # map (sellerMail rt summ) (sellerGroups summ))) w"
proof -
  have a: "sendOrderConfirmation rt es summ = send es (confirmationMail rt summ)"
    by (rule ext) (simp add: sendOrderConfirmation_def)
  have b: "sendSellerNotification rt es summ
             = promiseAll (map (send es) (map (sellerMail rt summ) (sellerGroups summ)))"
    by (rule ext) (simp add: sendSellerNotification_def comp_def)
  show ?thesis unfolding a b promiseAll_nested by simp
qed

lemma create_customer:
  "create rt es cid CUSTOMER dto w =
     (case transaction (checkoutCallback cid dto) w of
        (Inl e, w1) \<Rightarrow> (Inl e, w1)
      | (Inr order, w1) \<Rightarrow>
          (case promiseAll (map (send es)
                  (confirmationMail rt (buildOrderSummary rt order)
                   # map (sellerMail rt (buildOrderSummary rt order))
                         (sellerGroups (buildOrderSummary rt order)))) w1 of
             (Inl e, w2) \<Rightarrow> (Inl e, w2)
           | (Inr _, w2) \<Rightarrow> (Inr (serializeOrder rt order), w2)))"
  unfolding create_def ensureCustomer_def Let_def notify_eq by simp

lemma create_committed:
  assumes "transaction (checkoutCallback cid dto) w = (Inr order, w1)"
  shows "create rt es cid CUSTOMER dto w =
     (let ms = confirmationMail rt (buildOrderSummary rt order)
                # map (sellerMail rt (buildOrderSummary rt order))
                      (sellerGroups (buildOrderSummary rt order))
      in case transporter es of
           None \<Rightarrow> (Inr (serializeOrder rt order), w1\<lparr>logged := logged w1 @ map skipped ms\<rparr>)
         | Some f \<Rightarrow>
             (if \<forall>m\<in>set ms. f (outgoing es m) then Inr (serializeOrder rt order)
              else Inl TransportError,
              w1\<lparr>sentMail := sentMail w1 @ map (outgoing es) ms\<rparr>))"
  unfolding create_customer assms prod.case sum.case promiseAll_send Let_def
  by (simp split: option.split)

lemma create_rolled_back:
  assumes "transaction (checkoutCallback cid dto) w = (Inl e, w1)"
  shows "create rt es cid CUSTOMER dto w = (Inl e, w1)"
  unfolding create_customer assms by simp

lemma create_Inr_D:
  assumes "create rt es cid role dto w = (Inr so, w')"
  shows "role = CUSTOMER \<and> (\<exists>order w1. checkoutCallback cid dto w = (Inr order, w1)
            \<and> db w' = db w1 \<and> so = serializeOrder rt order)"
proof -
  have role: "role = CUSTOMER"
    using assms by (cases role) (simp_all add: create_def ensureCustomer_def)
  obtain r w1 where t: "transaction (checkoutCallback cid dto) w = (r, w1)"
    by (cases "transaction (checkoutCallback cid dto) w")
  show ?thesis
  proof (cases r)
    case (Inl e)
    then show ?thesis using assms t role by (simp add: create_rolled_back)
  next
    case (Inr order)
    then have cb: "checkoutCallback cid dto w = (Inr order, w1)"
      using t by (simp add: transaction_Inr_iff)
    have "db w' = db w1 \<and> so = serializeOrder rt order"
      using assms role create_committed [of cid dto w order w1 rt es] t Inr
      by (cases "transporter es") (auto simp: Let_def split: if_splits)
    with cb role show ?thesis by blast
  qed
qed

lemmas example_defs =
  exDb_def exWorld_def mailerUp_def mailerDown_def mailerOff_def line_def request_def
  sencha_def oolong_def assam_def matcha_def ann_def bob_def cleo_def exRuntime_def

lemma create_succeeds:
  assumes avail: "\<forall>x\<in>set (items dto). \<exists>p. products (db w) (productId x) = Some p \<and> isActive p"
    and enough: "validateStock (products (db w)) (aggregateQuantities (items dto)) = None"
    and cust: "users (db w) cid = Some c"
    and mail: "\<forall>f m. transporter es = Some f \<longrightarrow> f m"
  shows "\<exists>so w'. create rt es cid CUSTOMER dto w = (Inr so, w')"
proof -
  from callback_success [OF avail enough cust] obtain order w1 where
    "checkoutCallback cid dto w = (Inr order, w1)" by blast
  then have t: "transaction (checkoutCallback cid dto) w = (Inr order, w1)"
    by (rule transaction_Inr)
  show ?thesis
    using mail unfolding create_committed [OF t] Let_def
    by (cases "transporter es") auto
qed

subsection \<open>Merging two request lines of one product\<close>









subsection \<open>Requests with the same aggregated map\<close>




subsection \<open>The order created by a successful checkout\<close>

lemma create_Inr_order:
  assumes "create rt es cid role dto w = (Inr so, w')"
  shows "\<exists>order. orders (db w') = orders (db w) @ [order] \<and> so = serializeOrder rt order
      \<and> status order = PENDING \<and> orderAddress order = shippingAddress dto
      \<and> (\<exists>its'. mset its' = mset (orderItems order)
            \<and> list_all2 (\<lambda>x it. itemQuantity it = quantity x \<and> productRef it = productId x
                         \<and> products (db w) (productId x) = Some (product it)
                         \<and> unitPrice it = price (product it)) (items dto) its')
      \<and> totalAmount order = Cents (sum_list (map (\<lambda>it. cents (unitPrice it) * itemQuantity it) (orderItems order)))"
proof -
  from create_Inr_D [OF assms] obtain order w1 where
    cb: "checkoutCallback cid dto w = (Inr order, w1)" and dbw: "db w' = db w1"
    and so: "so = serializeOrder rt order"
    by blast
  from callback_Inr_D [OF cb] obtain c where
    avail: "\<forall>x\<in>set (items dto). \<exists>p. products (db w) (productId x) = Some p \<and> isActive p"
    and enough: "validateStock (products (db w)) (aggregateQuantities (items dto)) = None"
    and cust: "users (db w) cid = Some c"
    by blast
  from callback_success [OF avail enough cust] obtain its its' where
    perm: "mset its' = mset its"
    and rel: "list_all2 (\<lambda>x it. itemQuantity it = quantity x \<and> productRef it = productId x
                       \<and> products (db w) (productId x) = Some (product it)
                       \<and> unitPrice it = price (product it)) (items dto) its'"
    and res: "checkoutCallback cid dto w =
       (Inr \<lparr>orderId = nextOrderId (db w), customer = c, status = PENDING,
             orderAddress = shippingAddress dto,
             totalAmount = Cents (sum_list (map (\<lambda>it. cents (unitPrice it) * itemQuantity it) its)),
             orderItems = its\<rparr>,
        w\<lparr>storeLog := storeLog w @ [ProductFindMany (map fst (aggregateQuantities (items dto))),
                                     OrderCreate cid]
                         @ map (\<lambda>e. ProductUpdate (fst e)) (aggregateQuantities (items dto)),
          db := (db w)\<lparr>
            orders := orders (db w) @
              [\<lparr>orderId = nextOrderId (db w), customer = c, status = PENDING,
                orderAddress = shippingAddress dto,
                totalAmount = Cents (sum_list (map (\<lambda>it. cents (unitPrice it) * itemQuantity it) its)),
                orderItems = its\<rparr>],
            nextOrderId := nextOrderId (db w) + 1,
            nextItemId := nextItemId (db w) + int (length its),
            products := (\<lambda>i. case map_of (aggregateQuantities (items dto)) i of
                           None \<Rightarrow> products (db w) i
                         | Some q \<Rightarrow> map_option (\<lambda>row. row\<lparr>stock := stock row - q,
                                                            isActive := (stock row - q > 0)\<rparr>)
                                      (products (db w) i))\<rparr>\<rparr>)"
    by blast
  from cb res have o: "order = \<lparr>orderId = nextOrderId (db w), customer = c, status = PENDING,
             orderAddress = shippingAddress dto,
             totalAmount = Cents (sum_list (map (\<lambda>it. cents (unitPrice it) * itemQuantity it) its)),
             orderItems = its\<rparr>"
    and w1: "orders (db w1) = orders (db w) @ [order]"
    by auto
  have "\<exists>its'. mset its' = mset (orderItems order)
            \<and> list_all2 (\<lambda>x it. itemQuantity it = quantity x \<and> productRef it = productId x
                         \<and> products (db w) (productId x) = Some (product it)
                         \<and> unitPrice it = price (product it)) (items dto) its'"
    using perm rel by (intro exI [of _ its']) (simp add: o)
  then show ?thesis
    apply (intro exI [of _ order] conjI)
    using so w1 dbw by (simp_all add: o)
qed

subsection \<open>Status update\<close>

lemma find_map_status:
  "find (\<lambda>row. orderId row = i) rows = Some order \<Longrightarrow>
     find (\<lambda>row. orderId row = i)
          (map (\<lambda>r. if orderId r = i then r\<lparr>status := s\<rparr> else r) rows)
       = Some (order\<lparr>status := s\<rparr>)"
  by (induction rows) (auto split: if_splits)

subsection \<open>Seller groups\<close>













lemma callback_mail_unchanged:
  assumes "checkoutCallback cid dto w = (Inr order, w1)"
  shows "sentMail w1 = sentMail w \<and> logged w1 = logged w"
proof -
  from callback_Inr_D [OF assms] obtain c where
    avail: "\<forall>x\<in>set (items dto). \<exists>p. products (db w) (productId x) = Some p \<and> isActive p"
    and enough: "validateStock (products (db w)) (aggregateQuantities (items dto)) = None"
    and cust: "users (db w) cid = Some c"
    by blast
  from callback_success [OF avail enough cust] assms show ?thesis by auto
qed


lemma create_committed_world:
  assumes "transaction (checkoutCallback cid dto) w = (Inr order, w1)"
  shows "db (snd (create rt es cid CUSTOMER dto w)) = db w1
       \<and> (\<forall>f. transporter es = Some f \<longrightarrow>
             sentMail (snd (create rt es cid CUSTOMER dto w))
               = sentMail w @ map (outgoing es)
                   (confirmationMail rt (buildOrderSummary rt order)
                    # map (sellerMail rt (buildOrderSummary rt order))
                          (sellerGroups (buildOrderSummary rt order)))
           \<and> logged (snd (create rt es cid CUSTOMER dto w)) = logged w)
       \<and> (transporter es = None \<longrightarrow>
             sentMail (snd (create rt es cid CUSTOMER dto w)) = sentMail w
           \<and> logged (snd (create rt es cid CUSTOMER dto w))
               = logged w @ map skipped
                   (confirmationMail rt (buildOrderSummary rt order)
                    # map (sellerMail rt (buildOrderSummary rt order))
                          (sellerGroups (buildOrderSummary rt order))))"
proof -
  have "checkoutCallback cid dto w = (Inr order, w1)"
    using assms by (simp add: transaction_Inr_iff)
  from callback_mail_unchanged [OF this]
  have m: "sentMail w1 = sentMail w" "logged w1 = logged w" by simp_all
  show ?thesis
    unfolding create_committed [OF assms] Let_def
    by (cases "transporter es") (simp_all add: m)
qed

lemma transaction_commits:
  assumes avail: "\<forall>x\<in>set (items dto). \<exists>p. products (db w) (productId x) = Some p \<and> isActive p"
    and enough: "validateStock (products (db w)) (aggregateQuantities (items dto)) = None"
    and cust: "users (db w) cid = Some c"
  shows "\<exists>order w1. transaction (checkoutCallback cid dto) w = (Inr order, w1)
      \<and> customer order = c \<and> orderId order = nextOrderId (db w) \<and> status order = PENDING
      \<and> (\<exists>its'. mset its' = mset (orderItems order)
            \<and> list_all2 (\<lambda>x it. itemQuantity it = quantity x \<and> productRef it = productId x
                         \<and> products (db w) (productId x) = Some (product it)
                         \<and> unitPrice it = price (product it)) (items dto) its')
      \<and> orders (db w1) = orders (db w) @ [order]"
proof -
  from callback_success [OF avail enough cust] obtain its its' order w1 where
    perm: "mset its' = mset its"
    and rel: "list_all2 (\<lambda>x it. itemQuantity it = quantity x \<and> productRef it = productId x
                       \<and> products (db w) (productId x) = Some (product it)
                       \<and> unitPrice it = price (product it)) (items dto) its'"
    and cb: "checkoutCallback cid dto w = (Inr order, w1)"
    and o: "order = \<lparr>orderId = nextOrderId (db w), customer = c, status = PENDING,
             orderAddress = shippingAddress dto,
             totalAmount = Cents (sum_list (map (\<lambda>it. cents (unitPrice it) * itemQuantity it) its)),
             orderItems = its\<rparr>"
    and w1: "orders (db w1) = orders (db w) @ [order]"
    by auto
  from cb have t: "transaction (checkoutCallback cid dto) w = (Inr order, w1)"
    by (rule transaction_Inr)
  have "\<exists>its'. mset its' = mset (orderItems order)
            \<and> list_all2 (\<lambda>x it. itemQuantity it = quantity x \<and> productRef it = productId x
                         \<and> products (db w) (productId x) = Some (product it)
                         \<and> unitPrice it = price (product it)) (items dto) its'"
    using perm rel by (intro exI [of _ its']) (simp add: o)
  then show ?thesis
    apply (intro exI [of _ order] exI [of _ w1] conjI)
    using t w1 by (simp_all add: o)
qed

section \<open>Verified properties\<close>

text \<open>
  C7. A caller whose role is not the customer role is rejected with \<^verbatim>\<open>Forbidden\<close>
  (``Customer role required'') and the world is returned as it was: the store is unchanged, no
  store operation has been issued (the log of store operations did not grow, so no product or
  stock read was attempted), and nothing was mailed or logged.
\<close>

theorem create_non_customer_forbidden:
  "role \<noteq> CUSTOMER \<Longrightarrow>
     create rt es customerId role dto w = (Inl (ForbiddenException ''Customer role required''), w)"
  by (simp add: create_def ensureCustomer_def)

theorem create_non_customer_forbidden_witness:
  "SELLER \<noteq> CUSTOMER \<and>
   create exRuntime mailerUp 2 SELLER (request [line 1 2]) exWorld
     = (Inl (ForbiddenException ''Customer role required''), exWorld)"
  using create_non_customer_forbidden [of SELLER exRuntime mailerUp 2 "request [line 1 2]" exWorld]
  by simp

text \<open>
  C1. After a successful checkout, every product referenced by the order has had its
  aggregated quantity \<open>q\<close> (the sum of the quantities of all request lines for that product)
  taken off its stock \<open>s\<close>: the stock is \<open>s - q\<close> and the active flag is \<open>s - q > 0\<close>;
  the other columns of the product are as before.
\<close>

theorem checkout_decrements_stock:
  assumes "create rt es cid role dto w = (Inr so, w')"
    and "map_of (aggregateQuantities (items dto)) i = Some q"
  shows "q = sum_list (map quantity (filter (\<lambda>x. productId x = i) (items dto)))
     \<and> (\<exists>p. products (db w) i = Some p
            \<and> products (db w') i = Some (p\<lparr>stock := stock p - q, isActive := (stock p - q > 0)\<rparr>))"
proof -
  from create_Inr_D [OF assms(1)] obtain order w1 where
    cb: "checkoutCallback cid dto w = (Inr order, w1)" and dbw: "db w' = db w1"
    by blast
  from callback_Inr_D [OF cb] obtain c where
    avail: "\<forall>x\<in>set (items dto). \<exists>p. products (db w) (productId x) = Some p \<and> isActive p"
    and enough: "validateStock (products (db w)) (aggregateQuantities (items dto)) = None"
    and cust: "users (db w) cid = Some c"
    by blast
  have key: "i \<in> productId ` set (items dto)"
    using assms(2) keys_aggregateQuantities [of "items dto"] by (auto dest: map_of_Some_key)
  then obtain p where p: "products (db w) i = Some p" using avail by auto
  from callback_success [OF avail enough cust] obtain its where
    "checkoutCallback cid dto w =
       (Inr \<lparr>orderId = nextOrderId (db w), customer = c, status = PENDING,
             orderAddress = shippingAddress dto,
             totalAmount = Cents (sum_list (map (\<lambda>it. cents (unitPrice it) * itemQuantity it) its)),
             orderItems = its\<rparr>,
        w\<lparr>storeLog := storeLog w @ [ProductFindMany (map fst (aggregateQuantities (items dto))),
                                     OrderCreate cid]
                         @ map (\<lambda>e. ProductUpdate (fst e)) (aggregateQuantities (items dto)),
          db := (db w)\<lparr>
            orders := orders (db w) @
              [\<lparr>orderId = nextOrderId (db w), customer = c, status = PENDING,
                orderAddress = shippingAddress dto,
                totalAmount = Cents (sum_list (map (\<lambda>it. cents (unitPrice it) * itemQuantity it) its)),
                orderItems = its\<rparr>],
            nextOrderId := nextOrderId (db w) + 1,
            nextItemId := nextItemId (db w) + int (length its),
            products := (\<lambda>i. case map_of (aggregateQuantities (items dto)) i of
                           None \<Rightarrow> products (db w) i
                         | Some q \<Rightarrow> map_option (\<lambda>row. row\<lparr>stock := stock row - q,
                                                            isActive := (stock row - q > 0)\<rparr>)
                                      (products (db w) i))\<rparr>\<rparr>)"
    by blast
  with cb
  have "products (db w1) i = (case map_of (aggregateQuantities (items dto)) i of
                           None \<Rightarrow> products (db w) i
                         | Some q \<Rightarrow> map_option (\<lambda>row. row\<lparr>stock := stock row - q,
                                                            isActive := (stock row - q > 0)\<rparr>)
                                      (products (db w) i))"
    by auto
  then have "products (db w') i = Some (p\<lparr>stock := stock p - q, isActive := (stock p - q > 0)\<rparr>)"
    using assms(2) p dbw by simp
  moreover have "q = sum_list (map quantity (filter (\<lambda>x. productId x = i) (items dto)))"
    using assms(2) key by (simp add: map_of_aggregateQuantities)
  ultimately show ?thesis using p by blast
qed

theorem checkout_decrements_stock_witness:
  "\<exists>so w'. create exRuntime mailerUp 10 CUSTOMER (request [line 1 20, line 2 1, line 1 30]) exWorld = (Inr so, w')
     \<and> map_of (aggregateQuantities (items (request [line 1 20, line 2 1, line 1 30]))) 1 = Some 50
     \<and> products (db w') 1 = Some (sencha\<lparr>stock := 0, isActive := False\<rparr>)"
proof -
  have agg: "aggregateQuantities (items (request [line 1 20, line 2 1, line 1 30])) = [(1, 50), (2, 1)]"
    by (simp add: aggregateQuantities_def addQuantity_def request_def line_def)
  have "\<exists>so w'. create exRuntime mailerUp 10 CUSTOMER (request [line 1 20, line 2 1, line 1 30]) exWorld = (Inr so, w')"
  proof (rule create_succeeds)
    show "\<forall>x\<in>set (items (request [line 1 20, line 2 1, line 1 30])).
            \<exists>p. products (db exWorld) (productId x) = Some p \<and> isActive p"
      by (simp add: example_defs)
    show "validateStock (products (db exWorld))
            (aggregateQuantities (items (request [line 1 20, line 2 1, line 1 30]))) = None"
      unfolding agg by (simp add: example_defs)
    show "users (db exWorld) 10 = Some cleo"
      by (simp add: example_defs)
    show "\<forall>f m. transporter mailerUp = Some f \<longrightarrow> f m"
      by (simp add: mailerUp_def)
  qed
  then obtain so w' where
    ok: "create exRuntime mailerUp 10 CUSTOMER (request [line 1 20, line 2 1, line 1 30]) exWorld = (Inr so, w')"
    by blast
  have key: "map_of (aggregateQuantities (items (request [line 1 20, line 2 1, line 1 30]))) 1 = Some 50"
    unfolding agg by simp
  have "products (db exWorld) 1 = Some sencha"
    by (simp add: exWorld_def exDb_def)
  with checkout_decrements_stock [OF ok key]
  have "products (db w') 1 = Some (sencha\<lparr>stock := 0, isActive := False\<rparr>)"
    by (simp add: sencha_def)
  with ok key show ?thesis by blast
qed

text \<open>
  C6 (as amended). A checkout by a caller with the customer role that references at least one
  product id that does not exist, or whose product is inactive, fails with \<^verbatim>\<open>NotFound\<close>
  (``One or more products were not found or inactive''). The whole operation aborts: the world
  afterwards differs from the world before only by the one product query in the log of store
  operations, so no order or order item was created, no stock changed and nothing was mailed.
\<close>

theorem checkout_unknown_product_not_found:
  assumes "x \<in> set (items dto)"
    and "\<not> (\<exists>p. products (db w) (productId x) = Some p \<and> isActive p)"
  shows "create rt es cid CUSTOMER dto w =
           (Inl (NotFoundException ''One or more products were not found or inactive''),
            w\<lparr>storeLog := storeLog w @ [ProductFindMany (map fst (aggregateQuantities (items dto)))]\<rparr>)"
proof -
  have "\<exists>x\<in>set (items dto). \<not> (\<exists>p. products (db w) (productId x) = Some p \<and> isActive p)"
    using assms by blast
  from callback_NotFound [OF this, of cid]
  have "transaction (checkoutCallback cid dto) w =
           (Inl (NotFoundException ''One or more products were not found or inactive''),
            w\<lparr>storeLog := storeLog w @ [ProductFindMany (map fst (aggregateQuantities (items dto)))]\<rparr>)"
    by (simp add: transaction_def)
  then show ?thesis by (rule create_rolled_back)
qed

theorem checkout_unknown_product_not_found_witness:
  "line 4 1 \<in> set (items (request [line 1 2, line 4 1]))
   \<and> \<not> (\<exists>p. products (db exWorld) (productId (line 4 1)) = Some p \<and> isActive p)
   \<and> create exRuntime mailerUp 10 CUSTOMER (request [line 1 2, line 4 1]) exWorld =
       (Inl (NotFoundException ''One or more products were not found or inactive''),
        exWorld\<lparr>storeLog := [ProductFindMany [1, 4]]\<rparr>)"
proof -
  have a: "line 4 1 \<in> set (items (request [line 1 2, line 4 1]))"
    by (simp add: request_def)
  have b: "\<not> (\<exists>p. products (db exWorld) (productId (line 4 1)) = Some p \<and> isActive p)"
    by (simp add: example_defs)
  have agg: "aggregateQuantities (items (request [line 1 2, line 4 1])) = [(1, 2), (4, 1)]"
    by (simp add: aggregateQuantities_def addQuantity_def request_def line_def)
  show ?thesis
    using a b checkout_unknown_product_not_found [OF a b, of exRuntime mailerUp 10]
    by (simp add: agg exWorld_def)
qed

theorem checkout_unknown_product_counterexample:
  "line 99 1 \<in> set (items (request [line 99 1]))
   \<and> products (db exWorld) (productId (line 99 1)) = None
   \<and> create exRuntime mailerUp 2 SELLER (request [line 99 1]) exWorld
        = (Inl (ForbiddenException ''Customer role required''), exWorld)
   \<and> fst (create exRuntime mailerUp 2 SELLER (request [line 99 1]) exWorld)
        \<noteq> Inl (NotFoundException ''One or more products were not found or inactive'')"
  by (simp add: create_def ensureCustomer_def example_defs)

text \<open>
  C3 (as amended). When the caller has the customer role and every referenced product exists
  and is active, and the stock of some referenced product is less than its aggregated quantity,
  the checkout fails with the \<^verbatim>\<open>Forbidden\<close> exception ``Insufficient stock for <name>'', where
  <name> is the name of the first product, in the order of the aggregated map, whose stock is
  short. The world afterwards differs from the world before only by the one product query in the
  log of store operations: no order or order item exists for the call, no stock has changed.
\<close>

theorem checkout_insufficient_stock:
  assumes avail: "\<forall>x\<in>set (items dto). \<exists>p. products (db w) (productId x) = Some p \<and> isActive p"
    and short: "(i, q) \<in> set (aggregateQuantities (items dto))" "products (db w) i = Some p" "stock p < q"
  shows "\<exists>pre j r post pj.
            aggregateQuantities (items dto) = pre @ (j, r) # post
          \<and> (\<forall>(k, s)\<in>set pre. \<exists>pk. products (db w) k = Some pk \<and> s \<le> stock pk)
          \<and> products (db w) j = Some pj \<and> stock pj < r
          \<and> create rt es cid CUSTOMER dto w =
              (Inl (ForbiddenException (''Insufficient stock for '' @ name pj)),
               w\<lparr>storeLog := storeLog w @ [ProductFindMany (map fst (aggregateQuantities (items dto)))]\<rparr>)"
proof -
  let ?pq = "aggregateQuantities (items dto)"
  have "validateStock (products (db w)) ?pq \<noteq> None"
  proof
    assume "validateStock (products (db w)) ?pq = None"
    then have "\<forall>(i, q)\<in>set ?pq. \<exists>p. products (db w) i = Some p \<and> q \<le> stock p"
      by (simp add: validateStock_None_iff)
    from bspec [OF this short(1)] short(2,3) show False by simp
  qed
  then obtain e where e: "validateStock (products (db w)) ?pq = Some e" by blast
  have keys: "fst ` set ?pq = productId ` set (items dto)"
    by (rule keys_aggregateQuantities)
  have found: "\<forall>(i, q)\<in>set ?pq. products (db w) i \<noteq> None"
    using avail keys by force
  from validateStock_Some [OF e found] obtain pre j r post pj where
    first: "?pq = pre @ (j, r) # post"
           "\<forall>(k, s)\<in>set pre. \<exists>pk. products (db w) k = Some pk \<and> s \<le> stock pk"
           "products (db w) j = Some pj" "stock pj < r"
           "e = ForbiddenException (''Insufficient stock for '' @ name pj)"
    by blast
  from callback_insufficient [OF avail e, of cid]
  have "transaction (checkoutCallback cid dto) w =
          (Inl e, w\<lparr>storeLog := storeLog w @ [ProductFindMany (map fst ?pq)]\<rparr>)"
    by (simp add: transaction_def)
  then have "create rt es cid CUSTOMER dto w =
          (Inl e, w\<lparr>storeLog := storeLog w @ [ProductFindMany (map fst ?pq)]\<rparr>)"
    by (rule create_rolled_back)
  with first show ?thesis by blast
qed

theorem checkout_insufficient_stock_witness:
  "(2, 6) \<in> set (aggregateQuantities (items (request [line 1 2, line 2 3, line 2 3])))
   \<and> products (db exWorld) 2 = Some oolong \<and> stock oolong < 6
   \<and> create exRuntime mailerUp 10 CUSTOMER (request [line 1 2, line 2 3, line 2 3]) exWorld =
       (Inl (ForbiddenException ''Insufficient stock for Oolong''),
        exWorld\<lparr>storeLog := [ProductFindMany [1, 2]]\<rparr>)"
proof -
  have agg: "aggregateQuantities (items (request [line 1 2, line 2 3, line 2 3])) = [(1, 2), (2, 6)]"
    by (simp add: aggregateQuantities_def addQuantity_def request_def line_def)
  have a: "\<forall>x\<in>set (items (request [line 1 2, line 2 3, line 2 3])).
        \<exists>p. products (db exWorld) (productId x) = Some p \<and> isActive p"
    by (simp add: example_defs)
  have b: "(2, 6) \<in> set (aggregateQuantities (items (request [line 1 2, line 2 3, line 2 3])))"
    unfolding agg by simp
  have c: "products (db exWorld) 2 = Some oolong"
    by (simp add: exWorld_def exDb_def)
  have d: "stock oolong < 6"
    by (simp add: oolong_def)
  from checkout_insufficient_stock [OF a b c d, of exRuntime mailerUp 10]
  obtain pre j r post pj where
    first: "[(1, 2), (2, 6)] = pre @ (j, r) # post"
           "\<forall>(k, s)\<in>set pre. \<exists>pk. products (db exWorld) k = Some pk \<and> s \<le> stock pk"
           "products (db exWorld) j = Some pj" "stock pj < r"
    and res: "create exRuntime mailerUp 10 CUSTOMER (request [line 1 2, line 2 3, line 2 3]) exWorld =
              (Inl (ForbiddenException (''Insufficient stock for '' @ name pj)),
               exWorld\<lparr>storeLog := storeLog exWorld @ [ProductFindMany [1, 2]]\<rparr>)"
    unfolding agg by auto
  have "(j, r) \<in> set [(1, 2), (2, 6)]" using first(1) by (metis in_set_conv_decomp)
  then have "j = 1 \<and> r = 2 \<or> j = 2 \<and> r = 6" by auto
  then have "pj = oolong"
    using first(3,4) by (auto simp: example_defs)
  then have "create exRuntime mailerUp 10 CUSTOMER (request [line 1 2, line 2 3, line 2 3]) exWorld =
       (Inl (ForbiddenException ''Insufficient stock for Oolong''),
        exWorld\<lparr>storeLog := [ProductFindMany [1, 2]]\<rparr>)"
    using res by (simp add: oolong_def exWorld_def)
  with b c d show ?thesis by blast
qed

theorem checkout_insufficient_stock_counterexample:
  "(2, 6) \<in> set (aggregateQuantities (items (request [line 2 6, line 99 1])))
   \<and> products (db exWorld) 2 = Some oolong \<and> isActive oolong \<and> stock oolong < 6
   \<and> create exRuntime mailerUp 10 CUSTOMER (request [line 2 6, line 99 1]) exWorld =
       (Inl (NotFoundException ''One or more products were not found or inactive''),
        exWorld\<lparr>storeLog := [ProductFindMany [2, 99]]\<rparr>)"
proof -
  have agg: "aggregateQuantities (items (request [line 2 6, line 99 1])) = [(2, 6), (99, 1)]"
    by (simp add: aggregateQuantities_def addQuantity_def request_def line_def)
  have "\<exists>x\<in>set (items (request [line 2 6, line 99 1])).
          \<not> (\<exists>p. products (db exWorld) (productId x) = Some p \<and> isActive p)"
    by (simp add: example_defs)
  from callback_NotFound [OF this, of 10]
  have "transaction (checkoutCallback 10 (request [line 2 6, line 99 1])) exWorld =
           (Inl (NotFoundException ''One or more products were not found or inactive''),
            exWorld\<lparr>storeLog := [ProductFindMany [2, 99]]\<rparr>)"
    by (simp add: transaction_def agg exWorld_def)
  then have r: "create exRuntime mailerUp 10 CUSTOMER (request [line 2 6, line 99 1]) exWorld =
           (Inl (NotFoundException ''One or more products were not found or inactive''),
            exWorld\<lparr>storeLog := [ProductFindMany [2, 99]]\<rparr>)"
    by (rule create_rolled_back)
  have m: "(2, 6) \<in> set (aggregateQuantities (items (request [line 2 6, line 99 1])))"
    unfolding agg by simp
  have p: "products (db exWorld) 2 = Some oolong" "isActive oolong" "stock oolong < 6"
    by (simp_all add: exWorld_def exDb_def oolong_def)
  from m p r show ?thesis by blast
qed



text \<open>
  C5. A successful checkout appends one order, the one it returns. That order has exactly one
  item per line of the request, not aggregated: the created items, taken in request order (the
  store returns them in an order of its own, so the order's item list is a permutation of that
  list), carry line by line the line's quantity and product id, and as unit price the price
  that product had in the store when the checkout began. The total amount, in hundredths, is
  exactly the sum over the items of unit price (in hundredths) times quantity: integer
  arithmetic on the fixed-point representation, with no rounding.
\<close>

theorem checkout_prices_frozen_total_exact:
  assumes "create rt es cid role dto w = (Inr so, w')"
  shows "\<exists>order its'. orders (db w') = orders (db w) @ [order] \<and> so = serializeOrder rt order
      \<and> mset its' = mset (orderItems order)
      \<and> list_all2 (\<lambda>x it. itemQuantity it = quantity x \<and> productRef it = productId x
                         \<and> (\<exists>p. products (db w) (productId x) = Some p \<and> unitPrice it = price p))
                   (items dto) its'
      \<and> cents (totalAmount order)
           = sum_list (map (\<lambda>it. cents (unitPrice it) * itemQuantity it) (orderItems order))
      \<and> cents (totalAmount order)
           = sum_list (map (\<lambda>it. cents (unitPrice it) * itemQuantity it) its')"
proof -
  from create_Inr_order [OF assms] obtain order its' where
    o: "orders (db w') = orders (db w) @ [order]" "so = serializeOrder rt order"
    and perm: "mset its' = mset (orderItems order)"
    and rel: "list_all2 (\<lambda>x it. itemQuantity it = quantity x \<and> productRef it = productId x
                         \<and> products (db w) (productId x) = Some (product it)
                         \<and> unitPrice it = price (product it)) (items dto) its'"
    and tot: "totalAmount order = Cents (sum_list (map (\<lambda>it. cents (unitPrice it) * itemQuantity it) (orderItems order)))"
    by blast
  have r: "list_all2 (\<lambda>x it. itemQuantity it = quantity x \<and> productRef it = productId x
                         \<and> (\<exists>p. products (db w) (productId x) = Some p \<and> unitPrice it = price p))
                   (items dto) its'"
    using rel by (rule list_all2_mono) auto
  have t1: "cents (totalAmount order)
           = sum_list (map (\<lambda>it. cents (unitPrice it) * itemQuantity it) (orderItems order))"
    by (simp add: tot)
  have t2: "cents (totalAmount order)
           = sum_list (map (\<lambda>it. cents (unitPrice it) * itemQuantity it) its')"
    unfolding t1 by (rule sum_list_mset_cong [OF perm [symmetric]])
  from o perm r t1 t2 show ?thesis
    by (intro exI [of _ order] exI [of _ its'] conjI)
qed

theorem checkout_prices_frozen_total_exact_witness:
  "\<exists>so w' order. create exRuntime mailerUp 10 CUSTOMER (request [line 1 20, line 2 1, line 1 30]) exWorld
                    = (Inr so, w')
      \<and> orders (db w') = [order]
      \<and> mset (map (\<lambda>it. (productRef it, itemQuantity it, unitPrice it)) (orderItems order))
           = {#(1, 20, Cents 1250), (2, 1, Cents 999), (1, 30, Cents 1250)#}
      \<and> totalAmount order = Cents 63499"
proof -
  let ?dto = "request [line 1 20, line 2 1, line 1 30]"
  have agg: "aggregateQuantities (items ?dto) = [(1, 50), (2, 1)]"
    by (simp add: aggregateQuantities_def addQuantity_def request_def line_def)
  have "\<exists>so w'. create exRuntime mailerUp 10 CUSTOMER ?dto exWorld = (Inr so, w')"
  proof (rule create_succeeds)
    show "\<forall>x\<in>set (items ?dto). \<exists>p. products (db exWorld) (productId x) = Some p \<and> isActive p"
      by (simp add: example_defs)
    show "validateStock (products (db exWorld)) (aggregateQuantities (items ?dto)) = None"
      unfolding agg by (simp add: example_defs)
    show "users (db exWorld) 10 = Some cleo"
      by (simp add: example_defs)
    show "\<forall>f m. transporter mailerUp = Some f \<longrightarrow> f m"
      by (simp add: mailerUp_def)
  qed
  then obtain so w' where
    ok: "create exRuntime mailerUp 10 CUSTOMER ?dto exWorld = (Inr so, w')"
    by blast
  from checkout_prices_frozen_total_exact [OF ok] obtain order its' where
    o: "orders (db w') = orders (db exWorld) @ [order]"
    and perm: "mset its' = mset (orderItems order)"
    and rel: "list_all2 (\<lambda>x it. itemQuantity it = quantity x \<and> productRef it = productId x
                \<and> (\<exists>p. products (db exWorld) (productId x) = Some p \<and> unitPrice it = price p))
                   (items ?dto) its'"
    and tot: "cents (totalAmount order)
           = sum_list (map (\<lambda>it. cents (unitPrice it) * itemQuantity it) its')"
    by blast
  have ps: "products (db exWorld) 1 = Some sencha" "products (db exWorld) 2 = Some oolong"
    by (simp_all add: exWorld_def exDb_def)
  from rel obtain i1 i2 i3 where
    its: "its' = [i1, i2, i3]"
    and f1: "itemQuantity i1 = 20" "productRef i1 = 1" "unitPrice i1 = Cents 1250"
    and f2: "itemQuantity i2 = 1" "productRef i2 = 2" "unitPrice i2 = Cents 999"
    and f3: "itemQuantity i3 = 30" "productRef i3 = 1" "unitPrice i3 = Cents 1250"
    by (auto simp: request_def line_def list_all2_Cons1 ps sencha_def oolong_def)
  have "mset (map (\<lambda>it. (productRef it, itemQuantity it, unitPrice it)) (orderItems order))
          = mset (map (\<lambda>it. (productRef it, itemQuantity it, unitPrice it)) its')"
    using perm by simp
  also have "\<dots> = {#(1, 20, Cents 1250), (2, 1, Cents 999), (1, 30, Cents 1250)#}"
    by (simp add: its f1 f2 f3)
  finally have m: "mset (map (\<lambda>it. (productRef it, itemQuantity it, unitPrice it)) (orderItems order))
          = {#(1, 20, Cents 1250), (2, 1, Cents 999), (1, 30, Cents 1250)#}" .
  have t: "totalAmount order = Cents 63499"
    using tot by (cases "totalAmount order") (simp add: its f1 f2 f3)
  have "orders (db w') = [order]"
    using o by (simp add: exWorld_def exDb_def)
  with ok m t show ?thesis
    by (intro exI [of _ so] exI [of _ w'] exI [of _ order] conjI)
qed

text \<open>
  C9. For an existing order and a caller with the seller role: when the seller owns the
  product of at least one item of the order, \<^verbatim>\<open>updateStatus\<close> stores the requested status
  whatever the current status is (no ordering of the statuses is checked, so \<^verbatim>\<open>PENDING\<close> can
  go straight to \<^verbatim>\<open>DELIVERED\<close> and \<^verbatim>\<open>DELIVERED\<close> back to \<^verbatim>\<open>PENDING\<close>) and returns the
  updated order; when the seller owns none, the call fails with \<^verbatim>\<open>Forbidden\<close> and the store
  is unchanged.
\<close>

theorem updateStatus_no_ordering:
  assumes "find (\<lambda>row. orderId row = i) (orders (db w)) = Some order"
  shows "((\<exists>item\<in>set (orderItems order). uid (seller (product item)) = sellerId) \<longrightarrow>
            (\<exists>w'. updateStatus rt i sellerId SELLER newStatus w
                     = (Inr (serializeOrder rt (order\<lparr>status := newStatus\<rparr>)), w')
                 \<and> find (\<lambda>row. orderId row = i) (orders (db w')) = Some (order\<lparr>status := newStatus\<rparr>)
                 \<and> orders (db w') = map (\<lambda>r. if orderId r = i then r\<lparr>status := newStatus\<rparr> else r)
                                         (orders (db w))))
       \<and> (\<not> (\<exists>item\<in>set (orderItems order). uid (seller (product item)) = sellerId) \<longrightarrow>
            updateStatus rt i sellerId SELLER newStatus w
              = (Inl (ForbiddenException ''You are not allowed to update this order''),
                 w\<lparr>storeLog := storeLog w @ [OrderFindUnique i]\<rparr>))"
proof (intro conjI impI)
  assume owns: "\<exists>item\<in>set (orderItems order). uid (seller (product item)) = sellerId"
  let ?w' = "w\<lparr>storeLog := storeLog w @ [OrderFindUnique i, OrderUpdate i],
               db := (db w)\<lparr>orders := map (\<lambda>r. if orderId r = i then r\<lparr>status := newStatus\<rparr> else r)
                                         (orders (db w))\<rparr>\<rparr>"
  have "updateStatus rt i sellerId SELLER newStatus w
          = (Inr (serializeOrder rt (order\<lparr>status := newStatus\<rparr>)), ?w')"
    using assms owns
    by (simp add: updateStatus_def ensureSeller_def orderFindUnique_def orderUpdate_def
                  Let_def list_ex_iff)
  moreover have "find (\<lambda>row. orderId row = i) (orders (db ?w')) = Some (order\<lparr>status := newStatus\<rparr>)"
    using find_map_status [OF assms] by simp
  ultimately show "\<exists>w'. updateStatus rt i sellerId SELLER newStatus w
                     = (Inr (serializeOrder rt (order\<lparr>status := newStatus\<rparr>)), w')
                 \<and> find (\<lambda>row. orderId row = i) (orders (db w')) = Some (order\<lparr>status := newStatus\<rparr>)
                 \<and> orders (db w') = map (\<lambda>r. if orderId r = i then r\<lparr>status := newStatus\<rparr> else r)
                                         (orders (db w))"
    by (intro exI [of _ ?w']) simp
next
  assume "\<not> (\<exists>item\<in>set (orderItems order). uid (seller (product item)) = sellerId)"
  then show "updateStatus rt i sellerId SELLER newStatus w
              = (Inl (ForbiddenException ''You are not allowed to update this order''),
                 w\<lparr>storeLog := storeLog w @ [OrderFindUnique i]\<rparr>)"
    using assms
    by (simp add: updateStatus_def ensureSeller_def orderFindUnique_def Let_def list_ex_iff)
qed

theorem updateStatus_no_ordering_witness:
  "(\<exists>w'. updateStatus exRuntime 7 1 SELLER DELIVERED (worldWithOrder PENDING)
             = (Inr (serializeOrder exRuntime (placedOrder DELIVERED)), w')
         \<and> orders (db w') = [placedOrder DELIVERED])
   \<and> (\<exists>w'. updateStatus exRuntime 7 1 SELLER PENDING (worldWithOrder DELIVERED)
             = (Inr (serializeOrder exRuntime (placedOrder PENDING)), w')
         \<and> orders (db w') = [placedOrder PENDING])
   \<and> updateStatus exRuntime 7 2 SELLER DELIVERED (worldWithOrder PENDING)
        = (Inl (ForbiddenException ''You are not allowed to update this order''),
           (worldWithOrder PENDING)\<lparr>storeLog := [OrderFindUnique 7]\<rparr>)"
proof -
  have f: "\<And>s. find (\<lambda>row. orderId row = 7) (orders (db (worldWithOrder s))) = Some (placedOrder s)"
    by (simp add: worldWithOrder_def placedOrder_def)
  have own: "\<And>s. \<exists>item\<in>set (orderItems (placedOrder s)). uid (seller (product item)) = 1"
    by (simp add: placedOrder_def senchaItem_def sencha_def ann_def)
  have other: "\<And>s. \<not> (\<exists>item\<in>set (orderItems (placedOrder s)). uid (seller (product item)) = 2)"
    by (simp add: placedOrder_def senchaItem_def sencha_def ann_def)
  have st: "\<And>s t. (placedOrder s)\<lparr>status := t\<rparr> = placedOrder t"
    by (simp add: placedOrder_def)
  have os: "\<And>s t. map (\<lambda>r. if orderId r = 7 then r\<lparr>status := t\<rparr> else r) (orders (db (worldWithOrder s)))
                    = [placedOrder t]"
    by (simp add: worldWithOrder_def placedOrder_def)
  have lg: "storeLog (worldWithOrder PENDING) = []"
    by (simp add: worldWithOrder_def exWorld_def)
  from updateStatus_no_ordering [OF f [of PENDING], of 1 exRuntime DELIVERED] own [of PENDING]
  have a: "\<exists>w'. updateStatus exRuntime 7 1 SELLER DELIVERED (worldWithOrder PENDING)
             = (Inr (serializeOrder exRuntime (placedOrder DELIVERED)), w')
         \<and> orders (db w') = [placedOrder DELIVERED]"
    unfolding st os by blast
  from updateStatus_no_ordering [OF f [of DELIVERED], of 1 exRuntime PENDING] own [of DELIVERED]
  have b: "\<exists>w'. updateStatus exRuntime 7 1 SELLER PENDING (worldWithOrder DELIVERED)
             = (Inr (serializeOrder exRuntime (placedOrder PENDING)), w')
         \<and> orders (db w') = [placedOrder PENDING]"
    unfolding st os by blast
  from updateStatus_no_ordering [OF f [of PENDING], of 2 exRuntime DELIVERED] other [of PENDING]
  have c: "updateStatus exRuntime 7 2 SELLER DELIVERED (worldWithOrder PENDING)
        = (Inl (ForbiddenException ''You are not allowed to update this order''),
           (worldWithOrder PENDING)\<lparr>storeLog := [OrderFindUnique 7]\<rparr>)"
    unfolding lg by simp
  from a b c show ?thesis by (intro conjI)
qed

text \<open>
  C10. The order returned by a successful checkout, and the summary from which the
  notifications are written, expose the amounts as native numbers: the total is
  \<^verbatim>\<open>Number(order.totalAmount)\<close> and each unit price is \<^verbatim>\<open>Number(item.unitPrice)\<close>, applied to
  the decimals of the stored order, whose total is the exact sum in hundredths. (\<^verbatim>\<open>Number\<close> is
  the runtime's conversion to a native number, a parameter of the model.)
\<close>

theorem amounts_exposed_by_Number:
  assumes "create rt es cid role dto w = (Inr so, w')"
  shows "\<exists>order. orders (db w') = orders (db w) @ [order]
      \<and> soTotalAmount so = Number rt (totalAmount order)
      \<and> map siUnitPrice (soItems so) = map (\<lambda>it. Number rt (unitPrice it)) (orderItems order)
      \<and> summaryTotal (buildOrderSummary rt order) = Number rt (totalAmount order)
      \<and> map (\<lambda>i. sumUnitPrice (summary i)) (summaryItems (buildOrderSummary rt order))
           = map (\<lambda>it. Number rt (unitPrice it)) (orderItems order)
      \<and> totalAmount order
           = Cents (sum_list (map (\<lambda>it. cents (unitPrice it) * itemQuantity it) (orderItems order)))"
proof -
  from create_Inr_order [OF assms] obtain order where
    o: "orders (db w') = orders (db w) @ [order]" "so = serializeOrder rt order"
    and tot: "totalAmount order = Cents (sum_list (map (\<lambda>it. cents (unitPrice it) * itemQuantity it) (orderItems order)))"
    by blast
  have "soTotalAmount so = Number rt (totalAmount order)"
    by (simp add: o(2) serializeOrder_def)
  moreover have "map siUnitPrice (soItems so) = map (\<lambda>it. Number rt (unitPrice it)) (orderItems order)"
    by (simp add: o(2) serializeOrder_def comp_def)
  moreover have "summaryTotal (buildOrderSummary rt order) = Number rt (totalAmount order)"
    by (simp add: buildOrderSummary_def)
  moreover have "map (\<lambda>i. sumUnitPrice (summary i)) (summaryItems (buildOrderSummary rt order))
           = map (\<lambda>it. Number rt (unitPrice it)) (orderItems order)"
    by (simp add: buildOrderSummary_def comp_def)
  ultimately show ?thesis using o(1) tot by blast
qed

theorem amounts_exposed_by_Number_witness:
  "\<exists>so w' order. create exRuntime mailerUp 10 CUSTOMER (request [line 1 3]) exWorld = (Inr so, w')
      \<and> orders (db w') = [order]
      \<and> totalAmount order = Cents 3750
      \<and> soTotalAmount so = Number exRuntime (Cents 3750)
      \<and> map siUnitPrice (soItems so) = [Number exRuntime (Cents 1250)]"
proof -
  have agg: "aggregateQuantities (items (request [line 1 3])) = [(1, 3)]"
    by (simp add: aggregateQuantities_def addQuantity_def request_def line_def)
  have "\<exists>so w'. create exRuntime mailerUp 10 CUSTOMER (request [line 1 3]) exWorld = (Inr so, w')"
  proof (rule create_succeeds)
    show "\<forall>x\<in>set (items (request [line 1 3])).
            \<exists>p. products (db exWorld) (productId x) = Some p \<and> isActive p"
      by (simp add: example_defs)
    show "validateStock (products (db exWorld)) (aggregateQuantities (items (request [line 1 3]))) = None"
      unfolding agg by (simp add: example_defs)
    show "users (db exWorld) 10 = Some cleo"
      by (simp add: example_defs)
    show "\<forall>f m. transporter mailerUp = Some f \<longrightarrow> f m"
      by (simp add: mailerUp_def)
  qed
  then obtain so w' where
    ok: "create exRuntime mailerUp 10 CUSTOMER (request [line 1 3]) exWorld = (Inr so, w')"
    by blast
  from amounts_exposed_by_Number [OF ok] obtain order where
    o: "orders (db w') = orders (db exWorld) @ [order]"
    and n: "soTotalAmount so = Number exRuntime (totalAmount order)"
           "map siUnitPrice (soItems so) = map (\<lambda>it. Number exRuntime (unitPrice it)) (orderItems order)"
    and tot: "totalAmount order
           = Cents (sum_list (map (\<lambda>it. cents (unitPrice it) * itemQuantity it) (orderItems order)))"
    by blast
  from create_Inr_order [OF ok] o obtain its' where
    perm: "mset its' = mset (orderItems order)"
    and rel: "list_all2 (\<lambda>x it. itemQuantity it = quantity x \<and> productRef it = productId x
                         \<and> products (db exWorld) (productId x) = Some (product it)
                         \<and> unitPrice it = price (product it))
                    (items (request [line 1 3])) its'"
    by auto
  from rel obtain it where
    one: "its' = [it]"
    and it1: "itemQuantity it = 3"
         "products (db exWorld) 1 = Some (product it)" "unitPrice it = price (product it)"
    by (auto simp: request_def line_def list_all2_Cons1)
  from perm one have "orderItems order = [it]"
    by simp
  with it1 have it0: "orderItems order = [it]" "itemQuantity it = 3"
         "products (db exWorld) 1 = Some (product it)" "unitPrice it = price (product it)"
    by simp_all
  have "products (db exWorld) 1 = Some sencha"
    by (simp add: exWorld_def exDb_def)
  with it0(3) have "product it = sencha" by simp
  with it0 have it: "orderItems order = [it]" "itemQuantity it = 3" "unitPrice it = Cents 1250"
    by (simp_all add: sencha_def)
  have t: "totalAmount order = Cents 3750"
    using tot it by simp
  have "orders (db w') = [order]"
    using o by (simp add: exWorld_def exDb_def)
  with ok t n it show ?thesis by auto
qed



text \<open>
  C4 (as amended). When the transaction of a checkout has committed, a failure of a
  notification dispatch does not roll anything back: the store after the call is the committed
  one. The failure is not swallowed, though. The call waits for both dispatches, and when the
  transporter rejects any of the messages the checkout fails with the transport's error instead
  of returning the created order. The order is returned when the transporter accepts every
  message, or when no transporter is configured (the messages are then only logged).
\<close>

theorem notification_failure_after_commit:
  assumes "transaction (checkoutCallback cid dto) w = (Inr order, w1)"
  shows "let summ = buildOrderSummary rt order;
             ms = confirmationMail rt summ # map (sellerMail rt summ) (sellerGroups summ);
             res = create rt es cid CUSTOMER dto w
         in db (snd res) = db w1
          \<and> (transporter es = None \<longrightarrow> fst res = Inr (serializeOrder rt order))
          \<and> (\<forall>f. transporter es = Some f \<longrightarrow>
                fst res = (if \<forall>m\<in>set ms. f (outgoing es m) then Inr (serializeOrder rt order)
                           else Inl TransportError))"
  using create_committed_world [OF assms, of rt es]
  unfolding create_committed [OF assms] Let_def
  by (cases "transporter es") simp_all

theorem notification_failure_after_commit_witness:
  "\<exists>order w1. transaction (checkoutCallback 10 (request [line 1 3])) exWorld = (Inr order, w1)
     \<and> db (snd (create exRuntime mailerDown 10 CUSTOMER (request [line 1 3]) exWorld)) = db w1
     \<and> fst (create exRuntime mailerDown 10 CUSTOMER (request [line 1 3]) exWorld) = Inl TransportError
     \<and> fst (create exRuntime mailerUp 10 CUSTOMER (request [line 1 3]) exWorld)
          = Inr (serializeOrder exRuntime order)
     \<and> fst (create exRuntime mailerOff 10 CUSTOMER (request [line 1 3]) exWorld)
          = Inr (serializeOrder exRuntime order)"
proof -
  let ?dto = "request [line 1 3]"
  have agg: "aggregateQuantities (items ?dto) = [(1, 3)]"
    by (simp add: aggregateQuantities_def addQuantity_def request_def line_def)
  have avail: "\<forall>x\<in>set (items ?dto). \<exists>p. products (db exWorld) (productId x) = Some p \<and> isActive p"
    by (simp add: example_defs)
  have enough: "validateStock (products (db exWorld)) (aggregateQuantities (items ?dto)) = None"
    unfolding agg by (simp add: example_defs)
  have cust: "users (db exWorld) 10 = Some cleo"
    by (simp add: example_defs)
  from transaction_commits [OF avail enough cust] obtain order w1 where
    t: "transaction (checkoutCallback 10 ?dto) exWorld = (Inr order, w1)"
    by blast
  have down: "transporter mailerDown = Some (\<lambda>m. False)"
    and up: "transporter mailerUp = Some (\<lambda>m. True)"
    and off: "transporter mailerOff = None"
    by (simp_all add: mailerDown_def mailerUp_def mailerOff_def)
  from notification_failure_after_commit [OF t, of exRuntime mailerDown] down
  have a: "db (snd (create exRuntime mailerDown 10 CUSTOMER ?dto exWorld)) = db w1"
          "fst (create exRuntime mailerDown 10 CUSTOMER ?dto exWorld) = Inl TransportError"
    unfolding Let_def by simp_all
  from notification_failure_after_commit [OF t, of exRuntime mailerUp] up
  have b: "fst (create exRuntime mailerUp 10 CUSTOMER ?dto exWorld) = Inr (serializeOrder exRuntime order)"
    unfolding Let_def by simp
  from notification_failure_after_commit [OF t, of exRuntime mailerOff] off
  have c: "fst (create exRuntime mailerOff 10 CUSTOMER ?dto exWorld) = Inr (serializeOrder exRuntime order)"
    unfolding Let_def by simp
  from t a b c show ?thesis by blast
qed

theorem notification_failure_counterexample:
  "\<not> isl (fst (transaction (checkoutCallback 10 (request [line 1 3])) exWorld))
   \<and> fst (create exRuntime mailerDown 10 CUSTOMER (request [line 1 3]) exWorld) = Inl TransportError
   \<and> orders (db exWorld) = []
   \<and> length (orders (db (snd (create exRuntime mailerDown 10 CUSTOMER (request [line 1 3]) exWorld)))) = 1"
proof -
  let ?dto = "request [line 1 3]"
  have agg: "aggregateQuantities (items ?dto) = [(1, 3)]"
    by (simp add: aggregateQuantities_def addQuantity_def request_def line_def)
  have avail: "\<forall>x\<in>set (items ?dto). \<exists>p. products (db exWorld) (productId x) = Some p \<and> isActive p"
    by (simp add: example_defs)
  have enough: "validateStock (products (db exWorld)) (aggregateQuantities (items ?dto)) = None"
    unfolding agg by (simp add: example_defs)
  have cust: "users (db exWorld) 10 = Some cleo"
    by (simp add: example_defs)
  have none: "orders (db exWorld) = []"
    by (simp add: exWorld_def exDb_def)
  from transaction_commits [OF avail enough cust] obtain order w1 where
    t: "transaction (checkoutCallback 10 ?dto) exWorld = (Inr order, w1)"
    and o: "orders (db w1) = orders (db exWorld) @ [order]"
    by blast
  have down: "transporter mailerDown = Some (\<lambda>m. False)"
    by (simp add: mailerDown_def)
  have r: "fst (create exRuntime mailerDown 10 CUSTOMER ?dto exWorld) = Inl TransportError"
    unfolding create_committed [OF t] Let_def by (auto simp: down)
  have d: "db (snd (create exRuntime mailerDown 10 CUSTOMER ?dto exWorld)) = db w1"
    using create_committed_world [OF t, of exRuntime mailerDown] by simp
  have "\<not> isl (fst (transaction (checkoutCallback 10 ?dto) exWorld))"
    by (simp add: t)
  moreover have "length (orders (db (snd (create exRuntime mailerDown 10 CUSTOMER ?dto exWorld)))) = 1"
    by (simp add: d o none)
  ultimately show ?thesis using r none by blast
qed

end
